(* ===== verification/Prelude.thy ===== *)
theory Prelude
  imports Complex_Main "HOL-Library.Sublist"
begin

text \<open>
  Shared vocabulary of the development: the Python exceptions the program raises
  (as values of a sum type), and the pandas / Python builtins the program calls on
  series and lists (\<open>Series.tail\<close>, \<open>Series.min\<close>, \<open>Series.max\<close>, list slicing
  \<open>xs[:n]\<close>, \<open>dict.get\<close>), each with the generic lemmas that the component
  theories use through the collection \<open>py_simps\<close>.
\<close>

named_theorems py_simps "characteristic equations of the modelled Python builtins"

subsection \<open>Exceptions as values\<close>

text \<open>
  The program raises \<open>ValueError\<close> itself (\<open>load_data\<close>) and lets pandas raise
  \<open>IndexError\<close> (\<open>df.iloc[-1]\<close> on an empty frame); the top-level handler shows
  \<open>str(e)\<close>. Each exception carries its message.
\<close>

datatype py_exc = ValueError string | IndexError string

type_synonym 'a py_result = "py_exc + 'a"

fun exc_str :: "py_exc \<Rightarrow> string" where
  "exc_str (ValueError m) = m"
| "exc_str (IndexError m) = m"

subsection \<open>\<open>Series.tail(n)\<close>\<close>

text \<open>The last \<open>n\<close> elements, or all of them when there are fewer.\<close>

definition tail_n :: "nat \<Rightarrow> 'a list \<Rightarrow> 'a list" where
  "tail_n n xs = drop (length xs - n) xs"

lemma length_tail_n [simp]: "length (tail_n n xs) = min n (length xs)"
  by (simp add: tail_n_def)

lemma tail_n_suffix [py_simps]: "suffix (tail_n n xs) xs"
  by (simp add: tail_n_def suffix_drop)

lemma set_tail_n_subset: "set (tail_n n xs) \<subseteq> set xs"
  by (simp add: tail_n_def set_drop_subset)

lemma tail_n_append [py_simps]:
  "n \<le> length ys \<Longrightarrow> tail_n n (xs @ ys) = tail_n n ys"
  by (simp add: tail_n_def)

lemma tail_n_short [py_simps]: "length xs \<le> n \<Longrightarrow> tail_n n xs = xs"
  by (simp add: tail_n_def)

lemma last_in_tail_n:
  assumes "0 < n" and "xs \<noteq> []"
  shows "last xs \<in> set (tail_n n xs)"
proof -
  from assms have "length xs - n < length xs" by simp
  then have "drop (length xs - n) xs \<noteq> []" and "last (drop (length xs - n) xs) = last xs"
    by simp_all
  then show ?thesis by (metis last_in_set tail_n_def)
qed

lemma tail_n_nonempty [simp]: "tail_n n xs = [] \<longleftrightarrow> n = 0 \<or> xs = []"
  by (cases xs) (auto simp: tail_n_def)

lemma tail_n_map [py_simps]: "tail_n n (map f xs) = map f (tail_n n xs)"
  by (simp add: tail_n_def drop_map)

subsection \<open>\<open>Series.min()\<close> and \<open>Series.max()\<close>\<close>

text \<open>
  pandas reduces a series left to right; on an empty series the result is NaN,
  here \<open>None\<close>. The tables the program reduces carry no NaN (they come out of
  \<open>dropna\<close>), so the reduction is the plain \<open>min\<close> / \<open>max\<close> fold.
\<close>

fun series_min :: "'a::linorder list \<Rightarrow> 'a option" where
  "series_min [] = None"
| "series_min (x # xs) = Some (fold min xs x)"

fun series_max :: "'a::linorder list \<Rightarrow> 'a option" where
  "series_max [] = None"
| "series_max (x # xs) = Some (fold max xs x)"

lemma fold_min_le: "fold min xs (a::'a::linorder) \<le> a \<and> (\<forall>y\<in>set xs. fold min xs a \<le> y)"
  by (induction xs arbitrary: a) (fastforce simp: min_le_iff_disj)+

lemma fold_max_ge: "a \<le> fold max xs (a::'a::linorder) \<and> (\<forall>y\<in>set xs. y \<le> fold max xs a)"
  by (induction xs arbitrary: a) (fastforce simp: le_max_iff_disj)+

lemma fold_min_mem: "fold min xs (a::'a::linorder) \<in> insert a (set xs)"
  by (induction xs arbitrary: a) (auto simp: min_def)

lemma fold_max_mem: "fold max xs (a::'a::linorder) \<in> insert a (set xs)"
  by (induction xs arbitrary: a) (auto simp: max_def)

lemma series_min_Some [py_simps]:
  "series_min xs = Some m \<longleftrightarrow> m \<in> set xs \<and> (\<forall>y\<in>set xs. m \<le> y)"
proof (cases xs)
  case Nil
  then show ?thesis by simp
next
  case (Cons a ys)
  have "fold min ys a \<in> set xs \<and> (\<forall>y\<in>set xs. fold min ys a \<le> y)"
    using Cons fold_min_le [where xs = ys and a = a] fold_min_mem [of ys a] by auto
  then show ?thesis
    using Cons by (auto intro: order.antisym)
qed

lemma series_max_Some [py_simps]:
  "series_max xs = Some m \<longleftrightarrow> m \<in> set xs \<and> (\<forall>y\<in>set xs. y \<le> m)"
proof (cases xs)
  case Nil
  then show ?thesis by simp
next
  case (Cons a ys)
  have "fold max ys a \<in> set xs \<and> (\<forall>y\<in>set xs. y \<le> fold max ys a)"
    using Cons fold_max_ge [where xs = ys and a = a] fold_max_mem [of ys a] by auto
  then show ?thesis
    using Cons by (auto intro: order.antisym)
qed

lemma series_min_None [simp]: "series_min xs = None \<longleftrightarrow> xs = []"
  by (cases xs) auto

lemma series_max_None [simp]: "series_max xs = None \<longleftrightarrow> xs = []"
  by (cases xs) auto

lemma series_min_Min [py_simps]: "xs \<noteq> [] \<Longrightarrow> series_min xs = Some (Min (set xs))"
  by (simp add: series_min_Some)

lemma series_max_Max [py_simps]: "xs \<noteq> [] \<Longrightarrow> series_max xs = Some (Max (set xs))"
  by (simp add: series_max_Some)

subsection \<open>Slicing \<open>xs[:n]\<close>\<close>

text \<open>
  Python's slice end \<open>n\<close> counts from the end when negative and is clamped to the
  list's bounds; it never raises.
\<close>

definition py_slice_to :: "'a list \<Rightarrow> int \<Rightarrow> 'a list" where
  "py_slice_to xs n =
     (if 0 \<le> n then take (nat n) xs else take (nat (int (length xs) + n)) xs)"

lemma py_slice_to_nonneg [py_simps]: "0 \<le> n \<Longrightarrow> py_slice_to xs n = take (nat n) xs"
  by (simp add: py_slice_to_def)

lemma length_py_slice_to:
  "length (py_slice_to xs n) =
     (if 0 \<le> n then min (nat n) (length xs) else nat (int (length xs) + n))"
  by (auto simp: py_slice_to_def min_def)

lemma py_slice_to_prefix [py_simps]: "prefix (py_slice_to xs n) xs"
  by (simp add: py_slice_to_def take_is_prefix)

subsection \<open>\<open>dict.get(key, default)\<close>\<close>

text \<open>A parsed feed entry is a dictionary from field names to strings.\<close>

type_synonym py_dict = "(string \<times> string) list"

definition py_get :: "py_dict \<Rightarrow> string \<Rightarrow> string \<Rightarrow> string" where
  "py_get d k dflt = (case map_of d k of None \<Rightarrow> dflt | Some v \<Rightarrow> v)"

lemma py_get_missing [py_simps]: "k \<notin> fst ` set d \<Longrightarrow> py_get d k dflt = dflt"
  using map_of_eq_None_iff [of d k] by (simp add: py_get_def)

end
