(* ===== verification/Loader.thy ===== *)
theory Loader
  imports Prelude
begin

text \<open>
  The data loader of \<open>src/app.py\<close> (\<open>load_data\<close>, lines 16--26): the price table
  returned by the market-data provider, the five indicator columns attached to it,
  \<open>dropna\<close>, and the \<open>ValueError\<close> raised when the provider has no data. The
  provider (\<open>yf.Ticker(t).history\<close>) and the indicator library (\<open>pandas_ta\<close>) are
  external: the provider is a parameter \<open>string \<Rightarrow> bar list option\<close>, the library
  a record of three functions. The TTL cache of the decorator is in theory \<open>Cache\<close>.
\<close>

subsection \<open>The price table and the indicator table\<close>

text \<open>One row of \<open>history(period="2y")\<close>: the date index and the provider's columns.\<close>

record bar =
  Date :: int
  Open :: real
  High :: real
  Low :: real
  Close :: real
  Volume :: int
  Dividends :: real
  Stock_Splits :: real

text \<open>A row after the five column assignments: an indicator is NaN (\<open>None\<close>) in its warm-up window.\<close>

record aug_bar = bar +
  EMA20_na :: "real option"
  EMA50_na :: "real option"
  EMA200_na :: "real option"
  RSI14_na :: "real option"
  ATR14_na :: "real option"

text \<open>A row of the table \<open>load_data\<close> returns: every indicator is present.\<close>

record row = bar +
  EMA20 :: real
  EMA50 :: real
  EMA200 :: real
  RSI14 :: real
  ATR14 :: real

subsection \<open>The indicator library\<close>

text \<open>
  The calls \<open>ta.ema(close, n)\<close>, \<open>ta.rsi(close, n)\<close> and
  \<open>ta.atr(high, low, close, n)\<close>. A result is a series with NaN as \<open>None\<close>; when
  pandas_ta returns \<open>None\<close> (a series shorter than the window) the model's result is
  the empty list, which the column assignment turns into an all-NaN column.
\<close>

record ta_lib =
  ta_ema :: "real list \<Rightarrow> nat \<Rightarrow> real option list"
  ta_rsi :: "real list \<Rightarrow> nat \<Rightarrow> real option list"
  ta_atr :: "real list \<Rightarrow> real list \<Rightarrow> real list \<Rightarrow> nat \<Rightarrow> real option list"

text \<open>\<open>df["X"] = s\<close> aligns \<open>s\<close> on the index: a position \<open>s\<close> lacks is NaN.\<close>

definition col_at :: "'a option list \<Rightarrow> nat \<Rightarrow> 'a option" where
  "col_at xs i = (if i < length xs then xs ! i else None)"

text \<open>Lines 21--25: the five column assignments, row by row.\<close>

definition aug_at :: "ta_lib \<Rightarrow> bar list \<Rightarrow> nat \<Rightarrow> aug_bar" where
  "aug_at lib df i =
     (let c = map Close df in
      bar.extend (df ! i)
        (aug_bar.fields
          (col_at (ta_ema lib c 20) i)
          (col_at (ta_ema lib c 50) i)
          (col_at (ta_ema lib c 200) i)
          (col_at (ta_rsi lib c 14) i)
          (col_at (ta_atr lib (map High df) (map Low df) c 14) i)))"

definition add_indicators :: "ta_lib \<Rightarrow> bar list \<Rightarrow> aug_bar list" where
  "add_indicators lib df = map (aug_at lib df) [0..<length df]"

subsection \<open>\<open>dropna\<close>\<close>

text \<open>A row survives when none of its columns is NaN; the provider's columns are never NaN here.\<close>

fun dropna_row :: "aug_bar \<Rightarrow> row option" where
  "dropna_row r =
     (case (EMA20_na r, EMA50_na r, EMA200_na r, RSI14_na r, ATR14_na r) of
        (Some e20, Some e50, Some e200, Some rsi, Some atr) \<Rightarrow>
          Some (bar.extend (bar.truncate r) (row.fields e20 e50 e200 rsi atr))
      | _ \<Rightarrow> None)"

primrec dropna :: "aug_bar list \<Rightarrow> row list" where
  "dropna [] = []"
| "dropna (r # rs) = (case dropna_row r of None \<Rightarrow> dropna rs | Some x \<Rightarrow> x # dropna rs)"

subsection \<open>\<open>load_data\<close>\<close>

definition no_data_msg :: string where
  "no_data_msg = ''Data harga tidak ditemukan. Coba kode seperti BBNI / BBCA / TLKM.''"

text \<open>
  Lines 17--26 without the cache: fetch, raise on \<open>None\<close> or an empty frame,
  attach the indicators, drop the incomplete rows.
\<close>

definition load_data :: "ta_lib \<Rightarrow> (string \<Rightarrow> bar list option) \<Rightarrow> string \<Rightarrow> row list py_result" where
  "load_data lib history t =
     (case history t of
        None \<Rightarrow> Inl (ValueError no_data_msg)
      | Some df \<Rightarrow>
          if df = [] then Inl (ValueError no_data_msg)
          else Inr (dropna (add_indicators lib df)))"

text \<open>Row \<open>r\<close> of the result comes from row \<open>i\<close> of the provider's table.\<close>

definition row_from :: "ta_lib \<Rightarrow> bar list \<Rightarrow> nat \<Rightarrow> row \<Rightarrow> bool" where
  "row_from lib df i r \<longleftrightarrow>
     (let c = map Close df in
      bar.truncate r = df ! i \<and>
      col_at (ta_ema lib c 20) i = Some (EMA20 r) \<and> col_at (ta_ema lib c 50) i = Some (EMA50 r) \<and>
      col_at (ta_ema lib c 200) i = Some (EMA200 r) \<and> col_at (ta_rsi lib c 14) i = Some (RSI14 r) \<and>
      col_at (ta_atr lib (map High df) (map Low df) c 14) i = Some (ATR14 r))"

subsection \<open>The warm-up windows of the indicators\<close>

text \<open>
  pandas_ta leaves the first \<open>w\<close> values of an indicator NaN and computes every
  later one: \<open>w = n - 1\<close> for \<open>ema(close, n)\<close> (seeded with the SMA of the first
  \<open>n\<close> closes) and \<open>w = 14\<close> for \<open>rsi\<close> and \<open>atr\<close> of length 14 (one value lost
  to the one-step difference, then \<open>min_periods = 14\<close>). \<open>nan_prefix w s n\<close> says
  that the column \<open>s\<close> over \<open>n\<close> rows has exactly that shape.
\<close>

definition nan_prefix :: "nat \<Rightarrow> 'a option list \<Rightarrow> nat \<Rightarrow> bool" where
  "nan_prefix w s n \<longleftrightarrow> (\<forall>i<n. (col_at s i = None) = (i < w))"

definition ta_warmup :: "ta_lib \<Rightarrow> bar list \<Rightarrow> bool" where
  "ta_warmup lib df \<longleftrightarrow>
     (let c = map Close df; n = length df in
      nan_prefix 19 (ta_ema lib c 20) n \<and> nan_prefix 49 (ta_ema lib c 50) n \<and>
      nan_prefix 199 (ta_ema lib c 200) n \<and> nan_prefix 14 (ta_rsi lib c 14) n \<and>
      nan_prefix 14 (ta_atr lib (map High df) (map Low df) c 14) n)"

text \<open>
  Fixtures for the concrete instances: a library with exactly pandas_ta's warm-up
  windows (its values are placeholders) and a constant daily bar.
\<close>

abbreviation ex_lib :: ta_lib where
  "ex_lib \<equiv>
     \<lparr>ta_ema = \<lambda>xs k. map (\<lambda>i. if i + 1 < k then None else Some (xs ! i)) [0..<length xs],
      ta_rsi = \<lambda>xs k. map (\<lambda>i. if i < k then None else Some 50) [0..<length xs],
      ta_atr = \<lambda>h l c k. map (\<lambda>i. if i < k then None else Some (h ! i - l ! i)) [0..<length c]\<rparr>"

abbreviation ex_bar :: "int \<Rightarrow> bar" where
  "ex_bar d \<equiv> \<lparr>Date = d, Open = 100, High = 105, Low = 95, Close = 100, Volume = 1000,
    Dividends = 0, Stock_Splits = 0\<rparr>"

text \<open>Two hundred and one trading days with strictly ascending dates 1, 2, \<dots>, 201.\<close>

definition ex_dated :: "bar list" where
  "ex_dated = map (\<lambda>i. ex_bar (int i)) [1..<202]"

subsection \<open>Lemmas on the column assignments and \<open>dropna\<close>\<close>

lemma length_add_indicators [simp]: "length (add_indicators lib df) = length df"
  by (simp add: add_indicators_def)

lemma truncate_aug_at [simp]: "bar.truncate (aug_at lib df i) = df ! i"
  by (simp add: aug_at_def Let_def bar.defs aug_bar.defs)

lemma aug_at_cols [simp]:
  "EMA20_na (aug_at lib df i) = col_at (ta_ema lib (map Close df) 20) i"
  "EMA50_na (aug_at lib df i) = col_at (ta_ema lib (map Close df) 50) i"
  "EMA200_na (aug_at lib df i) = col_at (ta_ema lib (map Close df) 200) i"
  "RSI14_na (aug_at lib df i) = col_at (ta_rsi lib (map Close df) 14) i"
  "ATR14_na (aug_at lib df i) = col_at (ta_atr lib (map High df) (map Low df) (map Close df) 14) i"
  by (simp_all add: aug_at_def Let_def bar.defs aug_bar.defs)

lemma map_truncate_add_indicators: "map bar.truncate (add_indicators lib df) = df"
  by (simp add: add_indicators_def comp_def map_nth)

declare dropna_row.simps [simp del]

lemma dropna_row_truncate: "dropna_row a = Some r \<Longrightarrow> bar.truncate r = bar.truncate a"
  by (auto simp: dropna_row.simps bar.defs row.defs split: option.splits)

lemma dropna_row_cols:
  "dropna_row a = Some r \<Longrightarrow>
     EMA20_na a = Some (EMA20 r) \<and> EMA50_na a = Some (EMA50 r) \<and> EMA200_na a = Some (EMA200 r) \<and>
     RSI14_na a = Some (RSI14 r) \<and> ATR14_na a = Some (ATR14 r)"
  by (auto simp: dropna_row.simps bar.defs row.defs split: option.splits)

lemma dropna_row_aug_at:
  assumes "dropna_row (aug_at lib df i) = Some r"
  shows "row_from lib df i r"
proof -
  have "bar.truncate r = df ! i"
    using dropna_row_truncate [OF assms] by simp
  with dropna_row_cols [OF assms] show ?thesis
    by (simp add: row_from_def Let_def)
qed

lemma dropna_row_None_iff:
  "dropna_row a = None \<longleftrightarrow>
     EMA20_na a = None \<or> EMA50_na a = None \<or> EMA200_na a = None \<or> RSI14_na a = None \<or> ATR14_na a = None"
  by (auto simp: dropna_row.simps split: option.splits)

lemma dropna_eq: "dropna rs = map (the \<circ> dropna_row) (filter (\<lambda>r. dropna_row r \<noteq> None) rs)"
  by (induction rs) (auto split: option.splits)

lemma subseq_dropna: "subseq (map bar.truncate (dropna rs)) (map bar.truncate rs)"
proof (induction rs)
  case Nil
  then show ?case by simp
next
  case (Cons a rs)
  then show ?case
    by (cases "dropna_row a") (auto simp: dropna_row_truncate)
qed

lemma sorted_wrt_subseq: "subseq xs ys \<Longrightarrow> sorted_wrt P ys \<Longrightarrow> sorted_wrt P xs"
proof (induction rule: list_emb.induct)
  case (list_emb_Nil ys)
  then show ?case by simp
next
  case (list_emb_Cons xs ys y)
  then show ?case by simp
next
  case (list_emb_Cons2 x y xs ys)
  then show ?case by (auto elim: list_emb_set)
qed

lemma filter_upt_ge: "filter (\<lambda>i. k \<le> i) [0..<n] = [k..<n]"
  by (induction n) auto

lemma map_nth_upt_from: "map (nth xs) [k..<length xs] = drop k xs"
  by (rule nth_equalityI) simp_all

lemma col_at_nan_prefix:
  "nan_prefix w s n \<Longrightarrow> i < n \<Longrightarrow> col_at s i = None \<longleftrightarrow> i < w"
  by (simp add: nan_prefix_def)

lemma dropna_row_warmup:
  assumes "ta_warmup lib df" and "i < length df"
  shows "dropna_row (aug_at lib df i) = None \<longleftrightarrow> i < 199"
proof -
  let ?c = "map Close df"
  from assms have
    "col_at (ta_ema lib ?c 20) i = None \<longleftrightarrow> i < 19"
    "col_at (ta_ema lib ?c 50) i = None \<longleftrightarrow> i < 49"
    "col_at (ta_ema lib ?c 200) i = None \<longleftrightarrow> i < 199"
    "col_at (ta_rsi lib ?c 14) i = None \<longleftrightarrow> i < 14"
    "col_at (ta_atr lib (map High df) (map Low df) ?c 14) i = None \<longleftrightarrow> i < 14"
    by (auto simp: ta_warmup_def Let_def nan_prefix_def)
  then have "dropna_row (aug_at lib df i) = None \<longleftrightarrow>
      i < 19 \<or> i < 49 \<or> i < 199 \<or> i < 14 \<or> i < 14"
    by (simp only: dropna_row_None_iff aug_at_cols)
  then show ?thesis by arith
qed

lemma load_data_warmup_rows:
  assumes "ta_warmup lib df"
  shows "map bar.truncate (dropna (add_indicators lib df)) = drop 199 df"
proof -
  have "filter ((\<lambda>r. dropna_row r \<noteq> None) \<circ> aug_at lib df) [0..<length df] =
        filter (\<lambda>i. 199 \<le> i) [0..<length df]"
  proof (rule filter_cong [OF refl])
    fix i assume "i \<in> set [0..<length df]"
    then have "i < length df" by simp
    with assms show "((\<lambda>r. dropna_row r \<noteq> None) \<circ> aug_at lib df) i = (199 \<le> i)"
      by (simp only: comp_apply dropna_row_warmup) arith
  qed
  then have "map bar.truncate (dropna (add_indicators lib df)) =
        map (bar.truncate \<circ> the \<circ> dropna_row \<circ> aug_at lib df) [199..<length df]"
    by (simp only: dropna_eq add_indicators_def filter_map map_map filter_upt_ge comp_assoc)
  also have "\<dots> = map (nth df) [199..<length df]"
  proof (rule map_cong [OF refl])
    fix i assume "i \<in> set [199..<length df]"
    with assms obtain r where "dropna_row (aug_at lib df i) = Some r"
      using dropna_row_warmup [of lib df i] by fastforce
    then show "(bar.truncate \<circ> the \<circ> dropna_row \<circ> aug_at lib df) i = df ! i"
      by (simp add: dropna_row_truncate)
  qed
  finally show ?thesis by (simp add: map_nth_upt_from)
qed

lemma ex_lib_warmup: "ta_warmup ex_lib df"
  by (auto simp: ta_warmup_def nan_prefix_def col_at_def)

lemma load_data_Inr:
  "load_data lib h t = Inr rows \<longleftrightarrow>
     (\<exists>df. h t = Some df \<and> df \<noteq> [] \<and> rows = dropna (add_indicators lib df))"
  by (auto simp: load_data_def split: option.splits)

lemma row_from_dropna:
  "r \<in> set (dropna (add_indicators lib df)) \<Longrightarrow> \<exists>i<length df. row_from lib df i r"
  by (auto simp: dropna_eq add_indicators_def) (blast dest: dropna_row_aug_at)

lemma ex_dated_tail: "drop 199 ex_dated = [ex_bar 200, ex_bar 201]"
proof -
  have "drop 199 [1..<202] = [200..<202]" by (simp del: upt_rec_numeral)
  also have "\<dots> = [200, 201]" by simp
  finally show ?thesis by (simp add: ex_dated_def drop_map)
qed

lemma ex_dated_sorted: "sorted_wrt (<) (map Date ex_dated)"
  by (simp add: ex_dated_def sorted_wrt_map comp_def del: upt_rec_numeral)

lemma ex_dated_rows:
  "map bar.truncate (dropna (add_indicators ex_lib ex_dated)) = [ex_bar 200, ex_bar 201]"
  using load_data_warmup_rows [OF ex_lib_warmup, of ex_dated] by (simp only: ex_dated_tail)

subsection \<open>Properties of \<open>load_data\<close>\<close>

text \<open>
  C14: \<open>load_data\<close> raises exactly when the provider returns nothing or an empty
  table, and the error is the \<open>ValueError\<close> with the example-ticker hint.
\<close>

theorem load_data_error:
  "load_data lib h t = Inl e \<longleftrightarrow> (h t = None \<or> h t = Some []) \<and> e = ValueError no_data_msg"
  by (auto simp: load_data_def split: option.splits)

text \<open>
  C15: a successful load returns provider rows in their original order (a
  subsequence of the provider's table), each carrying the five indicator values the
  library computed at that row's position.
\<close>

theorem load_data_rows:
  assumes "load_data lib h t = Inr rows"
  shows "\<exists>df. h t = Some df \<and> df \<noteq> [] \<and> subseq (map bar.truncate rows) df \<and>
    (\<forall>r\<in>set rows. \<exists>i<length df. row_from lib df i r)"
proof -
  from assms obtain df where h: "h t = Some df" and ne: "df \<noteq> []"
    and rows: "rows = dropna (add_indicators lib df)"
    by (auto simp: load_data_Inr)
  have "subseq (map bar.truncate rows) df"
    using subseq_dropna [of "add_indicators lib df"] by (simp add: rows map_truncate_add_indicators)
  with h ne rows show ?thesis by (auto intro: row_from_dropna)
qed

lemma load_data_rows_witness:
  "case load_data ex_lib (\<lambda>_. Some ex_dated) ''BBNI.JK'' of Inl _ \<Rightarrow> False
   | Inr rows \<Rightarrow> length rows = 2 \<and>
     (\<exists>df. Some ex_dated = Some df \<and> df \<noteq> [] \<and> subseq (map bar.truncate rows) df \<and>
       (\<forall>r\<in>set rows. \<exists>i<length df. row_from ex_lib df i r))"
proof -
  have n: "length (dropna (add_indicators ex_lib ex_dated)) = 2"
    using arg_cong [OF ex_dated_rows, of length] by simp
  have ne: "ex_dated \<noteq> []" using ex_dated_tail by auto
  have l: "load_data ex_lib (\<lambda>_. Some ex_dated) ''BBNI.JK'' = Inr (dropna (add_indicators ex_lib ex_dated))"
    using ne by (simp add: load_data_def)
  show ?thesis using load_data_rows [OF l] l n by simp
qed

text \<open>
  C16: if the provider's dates ascend strictly, so do the dates of the loaded table.
\<close>

theorem load_data_sorted:
  assumes "load_data lib h t = Inr rows" and "h t = Some df" and "sorted_wrt (<) (map Date df)"
  shows "sorted_wrt (<) (map Date rows)"
proof -
  from assms(1,2) have "rows = dropna (add_indicators lib df)"
    by (auto simp: load_data_Inr)
  then have "subseq (map bar.truncate rows) df"
    using subseq_dropna [of "add_indicators lib df"] by (simp add: map_truncate_add_indicators)
  then have "subseq (map Date (map bar.truncate rows)) (map Date df)"
    by (rule subseq_map)
  then have "subseq (map Date rows) (map Date df)"
    by (simp add: comp_def bar.defs)
  then show ?thesis using assms(3) by (rule sorted_wrt_subseq)
qed

lemma load_data_sorted_witness:
  "case load_data ex_lib (\<lambda>_. Some ex_dated) ''BBNI.JK'' of Inl _ \<Rightarrow> False
   | Inr rows \<Rightarrow> map Date rows = [200, 201] \<and>
       sorted_wrt (<) (map Date ex_dated) \<and> sorted_wrt (<) (map Date rows)"
proof -
  have d: "map Date (dropna (add_indicators ex_lib ex_dated)) = [200, 201]"
    using arg_cong [OF ex_dated_rows, of "map Date"] by (simp add: comp_def bar.defs)
  have ne: "ex_dated \<noteq> []" using ex_dated_tail by auto
  have l: "load_data ex_lib (\<lambda>_. Some ex_dated) ''BBNI.JK'' = Inr (dropna (add_indicators ex_lib ex_dated))"
    using ne by (simp add: load_data_def)
  show ?thesis using load_data_sorted [OF l _ ex_dated_sorted] l d ex_dated_sorted by simp
qed

text \<open>
  C17: with pandas_ta's warm-up windows, the loaded table is the provider's table
  without its first 199 rows (the EMA200 window dominates the others).
\<close>

theorem load_data_warmup:
  assumes "ta_warmup lib df" and "h t = Some df" and "df \<noteq> []"
  shows "\<exists>rows. load_data lib h t = Inr rows \<and> map bar.truncate rows = drop 199 df"
  using assms by (simp add: load_data_def load_data_warmup_rows)

lemma load_data_warmup_witness:
  "ta_warmup ex_lib (replicate 250 (ex_bar 1)) \<and>
   (\<exists>rows. load_data ex_lib (\<lambda>_. Some (replicate 250 (ex_bar 1))) ''BBNI.JK'' = Inr rows \<and>
      map bar.truncate rows = drop 199 (replicate 250 (ex_bar 1)))"
  using load_data_warmup [OF ex_lib_warmup, of "\<lambda>_. Some (replicate 250 (ex_bar 1))" "''BBNI.JK''"]
    ex_lib_warmup by simp

end
