(* ===== verification/TradePlan.thy ===== *)
theory TradePlan
  imports Loader
begin

text \<open>
  The trade-plan generator \<open>trade_plan\<close> of \<open>src/app.py\<close> (lines 28--60): the last
  row of the indicator table, the 60-row support / resistance window, and the
  two-branch rule keyed on \<open>Close > EMA50\<close>. Python floats are modelled as reals
  (rounding of the float operations is not modelled). \<open>df.iloc[-1]\<close> on an empty
  table raises \<open>IndexError\<close>, which is the \<open>Inl\<close> branch.
\<close>

subsection \<open>The plan record and the rule\<close>

text \<open>The dictionary returned at lines 50--60, one field per key.\<close>

record plan =
  close :: real
  entry :: real
  tp1 :: real
  tp2 :: real
  cutloss :: real
  support :: real
  resistance :: real
  reco :: string
  why :: string

definition reco_buy :: string where
  "reco_buy = ''BUY / ACCUMULATE (terukur)''"

definition why_buy :: string where
  "why_buy = ''Uptrend (di atas EMA50). Entry ideal saat pullback dekat EMA20.''"

definition reco_wait :: string where
  "reco_wait = ''WAIT (tunggu setup)''"

definition why_wait :: string where
  "why_wait = ''Belum kuat di atas EMA50. Jika entry, lakukan dekat support dengan cutloss ketat.''"

text \<open>Lines 30--31 and 35--60: the rule, given the last row, the support and the resistance.\<close>

definition plan_rule :: "row \<Rightarrow> real \<Rightarrow> real \<Rightarrow> plan" where
  "plan_rule last_row sp rs =
     (let c = Close last_row; atr = ATR14 last_row in
      if c > EMA50 last_row then
        (let e = EMA20 last_row in
         \<lparr>close = c, entry = e, tp1 = e + 1.5 * atr, tp2 = min rs (e + 3 * atr),
          cutloss = min (e - 1.2 * atr) (sp * 0.995), support = sp, resistance = rs,
          reco = reco_buy, why = why_buy\<rparr>)
      else
        (let e = sp * 1.01 in
         \<lparr>close = c, entry = e, tp1 = min rs (e + 1.2 * atr), tp2 = rs,
          cutloss = sp * 0.985, support = sp, resistance = rs,
          reco = reco_wait, why = why_wait\<rparr>))"

definition iloc_msg :: string where
  "iloc_msg = ''single positional indexer is out-of-bounds''"

text \<open>
  Lines 29, 32, 33: \<open>df.iloc[-1]\<close> raises on an empty table before anything else;
  otherwise the 60-row window is non-empty and its minimum and maximum exist
  (the second error branch is unreachable, see \<open>trade_plan_error\<close>).
\<close>

definition trade_plan :: "row list \<Rightarrow> plan py_result" where
  "trade_plan df =
     (if df = [] then Inl (IndexError iloc_msg)
      else
        (case (series_min (map Low (tail_n 60 df)), series_max (map High (tail_n 60 df))) of
           (Some sp, Some rs) \<Rightarrow> Inr (plan_rule (last df) sp rs)
         | _ \<Rightarrow> Inl (IndexError iloc_msg)))"

text \<open>The 60-row window as sets: what \<open>Series.min\<close> / \<open>Series.max\<close> compute.\<close>

definition window_low :: "row list \<Rightarrow> real" where
  "window_low df = Min (Low ` set (tail_n 60 df))"

definition window_high :: "row list \<Rightarrow> real" where
  "window_high df = Max (High ` set (tail_n 60 df))"

subsection \<open>Well-formed price rows\<close>

text \<open>
  A bar whose low and high bound its open and close, with positive prices, and an
  indicator row whose ATR is non-negative (a mean of true ranges).
\<close>

definition bar_wf :: "'a bar_scheme \<Rightarrow> bool" where
  "bar_wf b \<longleftrightarrow> 0 < Low b \<and> Low b \<le> Open b \<and> Low b \<le> Close b \<and>
     Open b \<le> High b \<and> Close b \<le> High b"

definition row_wf :: "row \<Rightarrow> bool" where
  "row_wf r \<longleftrightarrow> bar_wf r \<and> 0 \<le> ATR14 r"

text \<open>
  A change of price unit by a factor \<open>k\<close>: every price column and every price
  indicator of a row, and every level of a plan, is multiplied by \<open>k\<close> (volume,
  dates and RSI are unit-free).
\<close>

definition scale_row :: "real \<Rightarrow> row \<Rightarrow> row" where
  "scale_row k r =
     r\<lparr>Open := k * Open r, High := k * High r, Low := k * Low r, Close := k * Close r,
       EMA20 := k * EMA20 r, EMA50 := k * EMA50 r, EMA200 := k * EMA200 r, ATR14 := k * ATR14 r\<rparr>"

definition scale_plan :: "real \<Rightarrow> plan \<Rightarrow> plan" where
  "scale_plan k p =
     p\<lparr>close := k * close p, entry := k * entry p, tp1 := k * tp1 p, tp2 := k * tp2 p,
       cutloss := k * cutloss p, support := k * support p, resistance := k * resistance p\<rparr>"

text \<open>Rows for the concrete instances below: low, high, close, EMA20, EMA50, ATR14.\<close>

abbreviation ex_row :: "real \<Rightarrow> real \<Rightarrow> real \<Rightarrow> real \<Rightarrow> real \<Rightarrow> real \<Rightarrow> row" where
  "ex_row lo hi c e20 e50 a \<equiv>
     \<lparr>Date = 0, Open = c, High = hi, Low = lo, Close = c, Volume = 0, Dividends = 0,
      Stock_Splits = 0, EMA20 = e20, EMA50 = e50, EMA200 = e50, RSI14 = 50, ATR14 = a\<rparr>"

abbreviation ex_up :: "row list" where
  "ex_up \<equiv> [ex_row 90 120 100 100 100 1, ex_row 100 115 110 105 100 2]"

abbreviation ex_wait :: "row list" where
  "ex_wait \<equiv> [ex_row 85 130 100 100 100 1, ex_row 88 95 90 95 100 3]"

text \<open>An uptrend whose close sits just under its 60-day high.\<close>

abbreviation ex_near_high :: "row list" where
  "ex_near_high \<equiv> [ex_row 95 112 100 100 100 1, ex_row 105 111 110 108 100 4]"

text \<open>A stock parked at the exchange's minimum price of 50 for the whole window.\<close>

abbreviation ex_flat :: "row list" where
  "ex_flat \<equiv> [ex_row 50 50 50 50 50 0, ex_row 50 50 50 50 50 0]"

subsection \<open>Characteristic equations\<close>

lemma plan_rule_common [simp]:
  "close (plan_rule l sp rs) = Close l"
  "support (plan_rule l sp rs) = sp"
  "resistance (plan_rule l sp rs) = rs"
  by (simp_all add: plan_rule_def Let_def)

lemma plan_rule_up:
  assumes "EMA50 l < Close l"
  shows "entry (plan_rule l sp rs) = EMA20 l"
    and "tp1 (plan_rule l sp rs) = EMA20 l + 1.5 * ATR14 l"
    and "tp2 (plan_rule l sp rs) = min rs (EMA20 l + 3 * ATR14 l)"
    and "cutloss (plan_rule l sp rs) = min (EMA20 l - 1.2 * ATR14 l) (sp * 0.995)"
    and "reco (plan_rule l sp rs) = reco_buy"
    and "why (plan_rule l sp rs) = why_buy"
  using assms by (simp_all add: plan_rule_def Let_def)

lemma plan_rule_wait:
  assumes "\<not> EMA50 l < Close l"
  shows "entry (plan_rule l sp rs) = sp * 1.01"
    and "tp1 (plan_rule l sp rs) = min rs (sp * 1.01 + 1.2 * ATR14 l)"
    and "tp2 (plan_rule l sp rs) = rs"
    and "cutloss (plan_rule l sp rs) = sp * 0.985"
    and "reco (plan_rule l sp rs) = reco_wait"
    and "why (plan_rule l sp rs) = why_wait"
  using assms by (simp_all add: plan_rule_def Let_def)

lemma trade_plan_Inr:
  "df \<noteq> [] \<Longrightarrow> trade_plan df = Inr (plan_rule (last df) (window_low df) (window_high df))"
  by (simp add: trade_plan_def window_low_def window_high_def py_simps)

lemma trade_plan_Inr_iff:
  "trade_plan df = Inr p \<longleftrightarrow> df \<noteq> [] \<and> p = plan_rule (last df) (window_low df) (window_high df)"
  by (cases "df = []") (auto simp: trade_plan_Inr, simp add: trade_plan_def)

lemma window_low_le_last: "df \<noteq> [] \<Longrightarrow> window_low df \<le> Low (last df)"
  unfolding window_low_def by (rule Min_le) (simp_all add: last_in_tail_n)

lemma window_high_ge_last: "df \<noteq> [] \<Longrightarrow> High (last df) \<le> window_high df"
  unfolding window_high_def by (rule Max_ge) (simp_all add: last_in_tail_n)

lemma window_low_pos:
  assumes "\<forall>r\<in>set df. bar_wf r" and "df \<noteq> []"
  shows "0 < window_low df"
proof -
  have "finite (Low ` set (tail_n 60 df))" and "Low ` set (tail_n 60 df) \<noteq> {}"
    using assms(2) by simp_all
  moreover have "\<forall>x\<in>Low ` set (tail_n 60 df). 0 < x"
    using assms(1) set_tail_n_subset by (fastforce simp: bar_wf_def)
  ultimately show ?thesis
    unfolding window_low_def by simp
qed

lemma min_add_nonneg_less: "(0::real) \<le> d \<Longrightarrow> min r (e + d) < e \<longleftrightarrow> r < e"
  by (auto simp: min_def)

lemma Min_scale:
  assumes "0 < k" and "finite A" and "A \<noteq> {}"
  shows "Min ((\<lambda>x. k * x) ` A) = k * Min (A :: real set)"
proof -
  have "mono (\<lambda>x::real. k * x)" using assms(1) by (auto intro: monoI)
  from mono_Min_commute [OF this assms(2,3)] show ?thesis by simp
qed

lemma Max_scale:
  assumes "0 < k" and "finite A" and "A \<noteq> {}"
  shows "Max ((\<lambda>x. k * x) ` A) = k * Max (A :: real set)"
proof -
  have "mono (\<lambda>x::real. k * x)" using assms(1) by (auto intro: monoI)
  from mono_Max_commute [OF this assms(2,3)] show ?thesis by simp
qed

lemma window_scale:
  assumes "0 < k" and "df \<noteq> []"
  shows "window_low (map (scale_row k) df) = k * window_low df"
    and "window_high (map (scale_row k) df) = k * window_high df"
proof -
  have im: "Low ` set (tail_n 60 (map (scale_row k) df)) = (\<lambda>x. k * x) ` Low ` set (tail_n 60 df)"
    "High ` set (tail_n 60 (map (scale_row k) df)) = (\<lambda>x. k * x) ` High ` set (tail_n 60 df)"
    by (simp_all add: py_simps image_image scale_row_def)
  from assms(2) have ne: "Low ` set (tail_n 60 df) \<noteq> {}" "High ` set (tail_n 60 df) \<noteq> {}" by simp_all
  show "window_low (map (scale_row k) df) = k * window_low df"
    unfolding window_low_def im by (rule Min_scale [OF assms(1) _ ne(1)]) simp
  show "window_high (map (scale_row k) df) = k * window_high df"
    unfolding window_high_def im by (rule Max_scale [OF assms(1) _ ne(2)]) simp
qed

lemma mult_min_pos: "0 < (k::real) \<Longrightarrow> k * min a b = min (k * a) (k * b)"
  by (simp add: min_def)

lemma plan_rule_scale:
  assumes "0 < k"
  shows "plan_rule (scale_row k r) (k * sp) (k * rs) = scale_plan k (plan_rule r sp rs)"
  using assms
  by (simp add: plan_rule_def scale_row_def scale_plan_def Let_def mult_min_pos distrib_left
      right_diff_distrib mult.left_commute mult.assoc)

subsection \<open>Functional behaviour of the two branches\<close>

text \<open>
  C1: when the last close is above EMA50 the plan is the uptrend plan: entry at
  EMA20, first target 1.5 ATR above it, second target 3 ATR above it capped by the
  resistance, cut-loss the lower of 1.2 ATR under the entry and 0.5\<percent> under the
  support, labelled BUY / ACCUMULATE.
\<close>

theorem trade_plan_uptrend:
  assumes "df \<noteq> []" and "EMA50 (last df) < Close (last df)"
  shows "\<exists>p. trade_plan df = Inr p \<and> entry p = EMA20 (last df) \<and>
    tp1 p = EMA20 (last df) + 1.5 * ATR14 (last df) \<and>
    tp2 p = min (resistance p) (EMA20 (last df) + 3 * ATR14 (last df)) \<and>
    cutloss p = min (EMA20 (last df) - 1.2 * ATR14 (last df)) (support p * 0.995) \<and>
    reco p = reco_buy \<and> why p = why_buy"
  using assms by (simp add: trade_plan_Inr plan_rule_up)

lemma trade_plan_uptrend_witness:
  "\<exists>p. trade_plan ex_up = Inr p \<and> entry p = EMA20 (last ex_up) \<and>
    tp1 p = EMA20 (last ex_up) + 1.5 * ATR14 (last ex_up) \<and>
    tp2 p = min (resistance p) (EMA20 (last ex_up) + 3 * ATR14 (last ex_up)) \<and>
    cutloss p = min (EMA20 (last ex_up) - 1.2 * ATR14 (last ex_up)) (support p * 0.995) \<and>
    reco p = reco_buy \<and> why p = why_buy"
  by (rule trade_plan_uptrend) simp_all

text \<open>
  C2: otherwise the plan is the wait plan: entry 1\<percent> above the support,
  cut-loss 1.5\<percent> under it, first target 1.2 ATR above the entry capped by the
  resistance, second target the resistance, labelled WAIT.
\<close>

theorem trade_plan_wait:
  assumes "df \<noteq> []" and "\<not> EMA50 (last df) < Close (last df)"
  shows "\<exists>p. trade_plan df = Inr p \<and> entry p = support p * 1.01 \<and>
    tp1 p = min (resistance p) (support p * 1.01 + 1.2 * ATR14 (last df)) \<and>
    tp2 p = resistance p \<and> cutloss p = support p * 0.985 \<and>
    reco p = reco_wait \<and> why p = why_wait"
  using assms by (simp add: trade_plan_Inr plan_rule_wait)

lemma trade_plan_wait_witness:
  "\<exists>p. trade_plan ex_wait = Inr p \<and> entry p = support p * 1.01 \<and>
    tp1 p = min (resistance p) (support p * 1.01 + 1.2 * ATR14 (last ex_wait)) \<and>
    tp2 p = resistance p \<and> cutloss p = support p * 0.985 \<and>
    reco p = reco_wait \<and> why p = why_wait"
  by (rule trade_plan_wait) simp_all

text \<open>
  C3: on a non-empty table the plan exists; its close is the last close, its support
  the least low and its resistance the greatest high of the last 60 rows (the
  pandas reductions agree with \<open>Min\<close> and \<open>Max\<close> of the window).
\<close>

theorem trade_plan_support_resistance:
  assumes "df \<noteq> []"
  shows "\<exists>p. trade_plan df = Inr p \<and> close p = Close (last df) \<and>
    support p = Min (Low ` set (tail_n 60 df)) \<and> resistance p = Max (High ` set (tail_n 60 df))"
  using assms by (simp add: trade_plan_Inr window_low_def window_high_def)

lemma trade_plan_support_resistance_witness:
  "\<exists>p. trade_plan ex_wait = Inr p \<and> close p = Close (last ex_wait) \<and>
    support p = Min (Low ` set (tail_n 60 ex_wait)) \<and>
    resistance p = Max (High ` set (tail_n 60 ex_wait))"
  by (rule trade_plan_support_resistance) simp

subsection \<open>The error path\<close>

text \<open>
  C4: \<open>trade_plan\<close> fails exactly on the empty table, with the \<open>IndexError\<close> of
  \<open>df.iloc[-1]\<close>; the reductions over the window never fail.
\<close>

theorem trade_plan_error: "trade_plan df = Inl e \<longleftrightarrow> df = [] \<and> e = IndexError iloc_msg"
proof (cases "df = []")
  case True
  then show ?thesis by (auto simp: trade_plan_def)
next
  case False
  then show ?thesis by (simp add: trade_plan_Inr)
qed

subsection \<open>Safety and bounds of the levels\<close>

text \<open>
  C5: on well-formed bars with a positive ATR the cut-loss lies strictly under the
  entry, in both branches.
\<close>

theorem trade_plan_cutloss_below_entry:
  assumes wf: "\<forall>r\<in>set df. bar_wf r" and atr: "0 < ATR14 (last df)"
    and tp: "trade_plan df = Inr p"
  shows "cutloss p < entry p"
proof -
  from tp have ne: "df \<noteq> []" and p: "p = plan_rule (last df) (window_low df) (window_high df)"
    by (simp_all add: trade_plan_Inr_iff)
  from wf ne have pos: "0 < window_low df" by (rule window_low_pos)
  show ?thesis
  proof (cases "EMA50 (last df) < Close (last df)")
    case True
    with atr show ?thesis by (simp add: p plan_rule_up min_less_iff_disj)
  next
    case False
    with pos show ?thesis by (simp add: p plan_rule_wait)
  qed
qed

lemma trade_plan_cutloss_below_entry_witness:
  "list_all bar_wf ex_up \<and> 0 < ATR14 (last ex_up) \<and>
   (case trade_plan ex_up of Inl _ \<Rightarrow> False | Inr p \<Rightarrow> cutloss p < entry p)"
proof -
  have wf: "\<forall>r\<in>set ex_up. bar_wf r" by (simp add: bar_wf_def)
  have atr: "0 < ATR14 (last ex_up)" by simp
  obtain p where tp: "trade_plan ex_up = Inr p" by (simp add: trade_plan_Inr)
  show ?thesis using trade_plan_cutloss_below_entry [OF wf atr tp] wf atr tp by simp
qed

text \<open>
  C6: on well-formed bars the support is positive, the last close lies between the
  support and the resistance, and the second target never exceeds the resistance.
\<close>

theorem trade_plan_levels_bounded:
  assumes wf: "\<forall>r\<in>set df. bar_wf r" and tp: "trade_plan df = Inr p"
  shows "0 < support p \<and> support p \<le> close p \<and> close p \<le> resistance p \<and> tp2 p \<le> resistance p"
proof -
  from tp have ne: "df \<noteq> []" and p: "p = plan_rule (last df) (window_low df) (window_high df)"
    by (simp_all add: trade_plan_Inr_iff)
  from wf ne have "bar_wf (last df)" by simp
  then have "Low (last df) \<le> Close (last df) \<and> Close (last df) \<le> High (last df)"
    by (simp add: bar_wf_def)
  moreover have "window_low df \<le> Low (last df)" and "High (last df) \<le> window_high df"
    using ne by (simp_all add: window_low_le_last window_high_ge_last)
  moreover have "tp2 p \<le> resistance p"
    by (cases "EMA50 (last df) < Close (last df)") (simp_all add: p plan_rule_up plan_rule_wait)
  moreover from wf ne have "0 < window_low df" by (rule window_low_pos)
  ultimately show ?thesis by (simp add: p)
qed

lemma trade_plan_levels_bounded_witness:
  "list_all bar_wf ex_near_high \<and>
   (case trade_plan ex_near_high of Inl _ \<Rightarrow> False | Inr p \<Rightarrow>
      0 < support p \<and> support p \<le> close p \<and> close p \<le> resistance p \<and> tp2 p \<le> resistance p)"
proof -
  have wf: "\<forall>r\<in>set ex_near_high. bar_wf r" by (simp add: bar_wf_def)
  obtain p where tp: "trade_plan ex_near_high = Inr p" by (simp add: trade_plan_Inr)
  show ?thesis using trade_plan_levels_bounded [OF wf tp] wf tp by simp
qed

text \<open>
  C7: in the uptrend branch the first target is at most the second exactly when the
  resistance is at least 1.5 ATR above the entry. A close just under the 60-day high
  (the instance below) gives a first target above the second.
\<close>

theorem trade_plan_targets_order_up:
  assumes up: "EMA50 (last df) < Close (last df)" and atr: "0 \<le> ATR14 (last df)"
    and tp: "trade_plan df = Inr p"
  shows "tp1 p \<le> tp2 p \<longleftrightarrow> entry p + 1.5 * ATR14 (last df) \<le> resistance p"
proof -
  from tp have p: "p = plan_rule (last df) (window_low df) (window_high df)"
    by (simp add: trade_plan_Inr_iff)
  from up atr show ?thesis by (simp add: p plan_rule_up)
qed

lemma trade_plan_targets_order_up_witness:
  "EMA50 (last ex_near_high) < Close (last ex_near_high) \<and> 0 \<le> ATR14 (last ex_near_high) \<and>
   (case trade_plan ex_near_high of Inl _ \<Rightarrow> False | Inr p \<Rightarrow>
      (tp1 p \<le> tp2 p \<longleftrightarrow> entry p + 1.5 * ATR14 (last ex_near_high) \<le> resistance p) \<and>
      tp2 p < tp1 p)"
proof -
  have up: "EMA50 (last ex_near_high) < Close (last ex_near_high)" by simp
  have atr: "0 \<le> ATR14 (last ex_near_high)" by simp
  define p where "p = plan_rule (last ex_near_high) (window_low ex_near_high) (window_high ex_near_high)"
  have tp: "trade_plan ex_near_high = Inr p" by (simp add: p_def trade_plan_Inr)
  have "tp2 p < tp1 p"
    by (simp add: p_def plan_rule_def window_low_def window_high_def tail_n_def)
  then show ?thesis using trade_plan_targets_order_up [OF up atr tp] up atr tp by simp
qed

text \<open>
  C8: in the wait branch the first target falls under the entry exactly when the
  resistance is less than 1\<percent> above the support; a stock parked at one price
  (the instance below) gets a target under its entry.
\<close>

theorem trade_plan_wait_target_below_entry:
  assumes wait: "\<not> EMA50 (last df) < Close (last df)" and atr: "0 \<le> ATR14 (last df)"
    and tp: "trade_plan df = Inr p"
  shows "tp1 p < entry p \<longleftrightarrow> resistance p < support p * 1.01"
proof -
  from tp have p: "p = plan_rule (last df) (window_low df) (window_high df)"
    by (simp add: trade_plan_Inr_iff)
  from wait have e: "entry p = support p * 1.01"
    and t: "tp1 p = min (resistance p) (entry p + 1.2 * ATR14 (last df))"
    by (simp_all add: p plan_rule_wait)
  from atr have "0 \<le> 1.2 * ATR14 (last df)" by simp
  then have "tp1 p < entry p \<longleftrightarrow> resistance p < entry p"
    unfolding t by (rule min_add_nonneg_less)
  then show ?thesis by (simp only: e)
qed

lemma trade_plan_wait_target_below_entry_witness:
  "\<not> EMA50 (last ex_flat) < Close (last ex_flat) \<and> 0 \<le> ATR14 (last ex_flat) \<and>
   (case trade_plan ex_flat of Inl _ \<Rightarrow> False | Inr p \<Rightarrow>
      (tp1 p < entry p \<longleftrightarrow> resistance p < support p * 1.01) \<and> tp1 p < entry p)"
proof -
  have wait: "\<not> EMA50 (last ex_flat) < Close (last ex_flat)" by simp
  have atr: "0 \<le> ATR14 (last ex_flat)" by simp
  define p where "p = plan_rule (last ex_flat) (window_low ex_flat) (window_high ex_flat)"
  have tp: "trade_plan ex_flat = Inr p" by (simp add: p_def trade_plan_Inr)
  have "tp1 p < entry p"
    by (simp add: p_def plan_rule_def window_low_def window_high_def tail_n_def)
  then show ?thesis using trade_plan_wait_target_below_entry [OF wait atr tp] wait atr tp by simp
qed

subsection \<open>Frame: only the last 60 rows matter\<close>

text \<open>
  C9: rows older than the trailing 60-row window do not change the plan: prefixing a
  table of at least 60 rows with any rows gives the same result.
\<close>

theorem trade_plan_window_frame:
  assumes "60 \<le> length ys"
  shows "trade_plan (xs @ ys) = trade_plan ys"
proof -
  from assms have "ys \<noteq> []" by auto
  with assms show ?thesis
    by (simp add: trade_plan_Inr window_low_def window_high_def py_simps)
qed

lemma trade_plan_window_frame_witness:
  "trade_plan (ex_up @ replicate 60 (last ex_up)) = trade_plan (replicate 60 (last ex_up))"
  by (rule trade_plan_window_frame) simp

subsection \<open>Independence of the price unit\<close>

text \<open>
  C10: the rule has no absolute price in it: expressing every price and price
  indicator in another unit (a factor \<open>k > 0\<close>) expresses every level of the
  plan in that unit, and leaves the recommendation unchanged.
\<close>

theorem trade_plan_scale:
  assumes "0 < k"
  shows "trade_plan (map (scale_row k) df) = map_sum id (scale_plan k) (trade_plan df)"
proof (cases "df = []")
  case True
  then show ?thesis by (simp add: trade_plan_def)
next
  case False
  then have "map (scale_row k) df \<noteq> []" by simp
  with False assms show ?thesis
    by (simp add: trade_plan_Inr window_scale last_map plan_rule_scale [symmetric])
qed

lemma trade_plan_scale_witness:
  "0 < (2::real) \<and> trade_plan (map (scale_row 2) ex_up) = map_sum id (scale_plan 2) (trade_plan ex_up)"
  using trade_plan_scale [of 2 ex_up] by simp

subsection \<open>The worked examples of the specification\<close>

text \<open>
  The specification's uptrend example (close 110, EMA50 100, EMA20 105, ATR 2,
  support 90, resistance 120). The code gives entry 105, cut-loss 89.55, first target
  108 and second target 111; the specification's text lists 107.5 and 110.
\<close>

theorem trade_plan_example_up:
  "trade_plan ex_up =
   Inr \<lparr>close = 110, entry = 105, tp1 = 108, tp2 = 111, cutloss = 89.55,
        support = 90, resistance = 120, reco = reco_buy, why = why_buy\<rparr>"
  by (simp add: trade_plan_def plan_rule_def tail_n_def)

text \<open>
  The specification's wait example (close 90, EMA50 100, support 85, resistance
  130, ATR 3): entry 85.85, cut-loss 83.725, first target 89.45, second target 130.
\<close>

theorem trade_plan_example_wait:
  "trade_plan ex_wait =
   Inr \<lparr>close = 90, entry = 85.85, tp1 = 89.45, tp2 = 130, cutloss = 83.725,
        support = 85, resistance = 130, reco = reco_wait, why = why_wait\<rparr>"
  by (simp add: trade_plan_def plan_rule_def tail_n_def)

end
