(* ===== verification/Ticker.thy ===== *)
theory Ticker
  imports Prelude
begin

text \<open>
  The ticker normaliser \<open>normalize_ticker\<close> of \<open>src/app.py\<close> (lines 8--14):
  \<open>str.strip\<close>, \<open>str.upper\<close>, the test \<open>"." not in t\<close> and the default suffix.
  Characters are code points below 128: \<open>str.isspace\<close> is true of the ASCII
  whitespace Python recognises (tab to carriage return, the four separators
  0x1C--0x1F and the space), \<open>str.upper\<close> maps \<open>a\<close>--\<open>z\<close> to \<open>A\<close>--\<open>Z\<close>.
  Non-ASCII letters, which Python also upper-cases, are outside the model.
\<close>

definition DEFAULT_SUFFIX :: string where
  "DEFAULT_SUFFIX = ''.JK''"

definition py_isspace :: "char \<Rightarrow> bool" where
  "py_isspace c \<longleftrightarrow> of_char c \<in> {9, 10, 11, 12, 13, 28, 29, 30, 31, 32 :: nat}"

text \<open>\<open>str.strip()\<close>: drop whitespace from both ends.\<close>

definition py_strip :: "string \<Rightarrow> string" where
  "py_strip s = rev (dropWhile py_isspace (rev (dropWhile py_isspace s)))"

definition py_upper_char :: "char \<Rightarrow> char" where
  "py_upper_char c =
     (let n = of_char c :: nat in if 97 \<le> n \<and> n \<le> 122 then char_of (n - 32) else c)"

definition py_upper :: "string \<Rightarrow> string" where
  "py_upper s = map py_upper_char s"

definition normalize_ticker :: "string \<Rightarrow> string" where
  "normalize_ticker t =
     (let t = py_upper (py_strip t) in
      if CHR ''.'' \<notin> set t then t @ DEFAULT_SUFFIX else t)"

text \<open>A string with no whitespace at either end.\<close>

definition stripped :: "string \<Rightarrow> bool" where
  "stripped s \<longleftrightarrow> s = [] \<or> \<not> py_isspace (hd s) \<and> \<not> py_isspace (last s)"

subsection \<open>Characters\<close>

lemma py_upper_char_code:
  "of_char (py_upper_char c) =
     (if 97 \<le> (of_char c :: nat) \<and> (of_char c :: nat) \<le> 122 then of_char c - 32 else (of_char c :: nat))"
proof (cases "97 \<le> (of_char c :: nat) \<and> (of_char c :: nat) \<le> 122")
  case True
  then have "(of_char c :: nat) - 32 < 256" by linarith
  with True show ?thesis by (simp add: py_upper_char_def Let_def)
next
  case False
  then show ?thesis by (auto simp: py_upper_char_def Let_def)
qed

lemma py_upper_char_idem [simp]: "py_upper_char (py_upper_char c) = py_upper_char c"
proof (cases "97 \<le> (of_char c :: nat) \<and> (of_char c :: nat) \<le> 122")
  case True
  then have "\<not> (97 \<le> (of_char (py_upper_char c) :: nat))"
    by (simp add: py_upper_char_code) arith
  then show ?thesis by (simp add: py_upper_char_def [of "py_upper_char c"] Let_def)
next
  case False
  then have "py_upper_char c = c" by (auto simp: py_upper_char_def Let_def)
  then show ?thesis by simp
qed

lemma py_isspace_upper [simp]: "py_isspace (py_upper_char c) = py_isspace c"
  unfolding py_isspace_def by (auto simp: py_upper_char_code)

lemma py_upper_char_dot [simp]: "py_upper_char c = CHR ''.'' \<longleftrightarrow> c = CHR ''.''"
proof -
  have "py_upper_char c = CHR ''.'' \<longleftrightarrow>
      (of_char (py_upper_char c) :: nat) = of_char (CHR ''.'')"
    by (simp only: of_char_eq_iff)
  also have "\<dots> \<longleftrightarrow> (of_char c :: nat) = of_char (CHR ''.'')"
    by (auto simp: py_upper_char_code)
  also have "\<dots> \<longleftrightarrow> c = CHR ''.''"
    by (simp only: of_char_eq_iff)
  finally show ?thesis .
qed

lemma py_isspace_dot [simp]: "\<not> py_isspace (CHR ''.'')"
  by (simp add: py_isspace_def)

lemma py_isspace_K [simp]: "\<not> py_isspace (CHR ''K'')"
  by (simp add: py_isspace_def)

subsection \<open>Strings\<close>

lemma py_upper_idem [simp]: "py_upper (py_upper s) = py_upper s"
  by (induction s) (simp_all add: py_upper_def)

lemma py_upper_append [simp]: "py_upper (xs @ ys) = py_upper xs @ py_upper ys"
  by (simp add: py_upper_def)

lemma py_upper_suffix [simp]: "py_upper DEFAULT_SUFFIX = DEFAULT_SUFFIX"
  by (simp add: DEFAULT_SUFFIX_def py_upper_def py_upper_char_def Let_def)

lemma dot_py_upper_char [simp]: "CHR ''.'' = py_upper_char c \<longleftrightarrow> c = CHR ''.''"
  by (metis py_upper_char_dot)

lemma dot_in_suffix [simp]: "CHR ''.'' \<in> set DEFAULT_SUFFIX"
  by (simp add: DEFAULT_SUFFIX_def)

lemma set_py_upper_dot [simp]: "CHR ''.'' \<in> set (py_upper s) \<longleftrightarrow> CHR ''.'' \<in> set s"
  by (induction s) (auto simp: py_upper_def)

lemma in_dropWhile_iff: "\<not> P c \<Longrightarrow> c \<in> set (dropWhile P xs) \<longleftrightarrow> c \<in> set xs"
  by (induction xs) auto

lemma set_py_strip_nonspace:
  "\<not> py_isspace c \<Longrightarrow> c \<in> set (py_strip s) \<longleftrightarrow> c \<in> set s"
  by (simp add: py_strip_def in_dropWhile_iff)

lemma py_strip_upper: "py_strip (py_upper s) = py_upper (py_strip s)"
proof -
  have "py_isspace \<circ> py_upper_char = py_isspace" by (simp add: fun_eq_iff)
  then show ?thesis
    by (simp add: py_strip_def py_upper_def dropWhile_map rev_map)
qed

lemma py_strip_id: "stripped s \<Longrightarrow> py_strip s = s"
proof (cases s)
  case Nil
  then show ?thesis by (simp add: py_strip_def)
next
  case (Cons c cs)
  assume st: "stripped s"
  obtain d ds where r: "rev s = d # ds"
    using Cons by (cases "rev s") auto
  then have "d = last s"
    by (metis last_snoc rev.simps(2) rev_rev_ident)
  with st Cons r have c: "\<not> py_isspace c" and d: "\<not> py_isspace d"
    by (simp_all add: stripped_def)
  from Cons c have "dropWhile py_isspace s = s" by simp
  moreover from r d have "dropWhile py_isspace (rev s) = rev s" by simp
  ultimately show ?thesis by (simp add: py_strip_def)
qed

lemma stripped_py_strip: "stripped (py_strip s)"
proof -
  let ?a = "dropWhile py_isspace s"
  let ?b = "dropWhile py_isspace (rev ?a)"
  show ?thesis
  proof (cases "?b = []")
    case True
    then show ?thesis by (simp add: py_strip_def stripped_def)
  next
    case False
    then have a: "?a \<noteq> []" by (metis Nil_is_rev_conv dropWhile.simps(1))
    have "\<not> py_isspace (hd ?b)" using False by (rule hd_dropWhile)
    moreover have "last ?b = last (rev ?a)"
      using False by (simp add: dropWhile_eq_drop)
    moreover have "\<not> py_isspace (hd ?a)" using a by (rule hd_dropWhile)
    ultimately show ?thesis
      using False a by (simp add: py_strip_def stripped_def hd_rev last_rev last_rev)
  qed
qed

lemma stripped_upper: "stripped s \<Longrightarrow> stripped (py_upper s)"
  by (cases s) (auto simp: stripped_def py_upper_def last_map)

lemma stripped_append_suffix: "stripped u \<Longrightarrow> stripped (u @ DEFAULT_SUFFIX)"
  by (cases u) (auto simp: stripped_def DEFAULT_SUFFIX_def)

lemma normalize_ticker_fixed:
  assumes "stripped n" and "py_upper n = n" and "CHR ''.'' \<in> set n"
  shows "normalize_ticker n = n"
  using assms by (simp add: normalize_ticker_def py_strip_id)

lemma normalize_ticker_shape_aux:
  "CHR ''.'' \<in> set (normalize_ticker t) \<and> stripped (normalize_ticker t) \<and>
   py_upper (normalize_ticker t) = normalize_ticker t"
proof -
  let ?u = "py_upper (py_strip t)"
  have st: "stripped ?u" by (rule stripped_upper [OF stripped_py_strip])
  show ?thesis
  proof (cases "CHR ''.'' \<in> set ?u")
    case True
    with st show ?thesis by (simp add: normalize_ticker_def)
  next
    case False
    with st show ?thesis
      by (simp add: normalize_ticker_def stripped_append_suffix)
  qed
qed

subsection \<open>Properties of the normaliser\<close>

text \<open>
  C11: normalising twice is normalising once; in particular an already suffixed
  ticker such as \<open>BBCA.JK\<close> is left unchanged.
\<close>

theorem normalize_ticker_idempotent: "normalize_ticker (normalize_ticker t) = normalize_ticker t"
  using normalize_ticker_shape_aux [of t] by (simp add: normalize_ticker_fixed)

text \<open>
  C12: every normalised ticker contains a dot, has no whitespace at either end and
  has no lower-case ASCII letter.
\<close>

theorem normalize_ticker_shape:
  "CHR ''.'' \<in> set (normalize_ticker t) \<and> stripped (normalize_ticker t) \<and>
   py_upper (normalize_ticker t) = normalize_ticker t"
  by (rule normalize_ticker_shape_aux)

text \<open>
  C13: the suffix \<open>.JK\<close> is appended exactly when the raw input has no dot;
  otherwise the trimmed, upper-cased input is returned as it is.
\<close>

theorem normalize_ticker_suffix:
  "normalize_ticker t =
     (if CHR ''.'' \<in> set t then py_upper (py_strip t) else py_upper (py_strip t) @ DEFAULT_SUFFIX)"
  by (simp add: normalize_ticker_def set_py_strip_nonspace)

text \<open>
  The specification's examples, the empty input (just the suffix), a
  lower-case suffix, an input with an inner space (accepted, not rejected) and a
  foreign market code (kept).
\<close>

theorem normalize_ticker_examples:
  "normalize_ticker ''bbni'' = ''BBNI.JK'' \<and> normalize_ticker ''BBCA.JK'' = ''BBCA.JK'' \<and>
   normalize_ticker ''  tlkm  '' = ''TLKM.JK'' \<and> normalize_ticker '''' = ''.JK'' \<and>
   normalize_ticker ''bbca.jk'' = ''BBCA.JK'' \<and> normalize_ticker ''bb ca'' = ''BB CA.JK'' \<and>
   normalize_ticker ''BBCA.XX'' = ''BBCA.XX''"
  by code_simp

end
