(* ===== verification/Cache.thy ===== *)
theory Cache
  imports Loader
begin

text \<open>
  The cache of \<open>@st.cache_data(ttl=60)\<close> on \<open>load_data\<close> (\<open>src/app.py\<close>,
  line 16). Streamlit keeps a per-function TTL map from the argument (the ticker) to
  the returned table and the time it was stored; a lookup at time \<open>now\<close> hits when
  \<open>now < stored + ttl\<close> (the test of the TTL map Streamlit uses), and a miss calls
  the function again. A call that raises stores nothing. The provider's answer may
  change over time, so it is a function of the clock. The counter \<open>fetches\<close>
  records the calls that reach the provider.
\<close>

definition cache_ttl :: real where
  "cache_ttl = 60"

record cache_state =
  entries :: "string \<rightharpoonup> row list \<times> real"
  fetches :: nat

definition empty_cache :: cache_state where
  "empty_cache = \<lparr>entries = Map.empty, fetches = 0\<rparr>"

type_synonym provider = "real \<Rightarrow> string \<Rightarrow> bar list option"

text \<open>A miss: call \<open>load_data\<close>, store a table it returns, let an exception through.\<close>

definition cache_miss ::
  "ta_lib \<Rightarrow> provider \<Rightarrow> real \<Rightarrow> string \<Rightarrow> cache_state \<Rightarrow> row list py_result \<times> cache_state" where
  "cache_miss lib hist now t s =
     (case load_data lib (hist now) t of
        Inl e \<Rightarrow> (Inl e, s\<lparr>fetches := Suc (fetches s)\<rparr>)
      | Inr v \<Rightarrow> (Inr v, s\<lparr>entries := (entries s)(t \<mapsto> (v, now)), fetches := Suc (fetches s)\<rparr>))"

text \<open>One call \<open>load_data(t)\<close> at time \<open>now\<close> through the cache.\<close>

definition cached_load ::
  "ta_lib \<Rightarrow> provider \<Rightarrow> real \<Rightarrow> string \<Rightarrow> cache_state \<Rightarrow> row list py_result \<times> cache_state" where
  "cached_load lib hist now t s =
     (case entries s t of
        Some (v, ts) \<Rightarrow> if now < ts + cache_ttl then (Inr v, s) else cache_miss lib hist now t s
      | None \<Rightarrow> cache_miss lib hist now t s)"

text \<open>A sequence of calls, each at its own time: the results and the final cache.\<close>

fun serve_all ::
  "ta_lib \<Rightarrow> provider \<Rightarrow> cache_state \<Rightarrow> (real \<times> string) list \<Rightarrow>
   row list py_result list \<times> cache_state" where
  "serve_all lib hist s [] = ([], s)"
| "serve_all lib hist s ((now, t) # rs) =
     (let (r, s') = cached_load lib hist now t s; (out, s'') = serve_all lib hist s' rs
      in (r # out, s''))"

text \<open>A provider that always has one bar for every ticker.\<close>

abbreviation ex_hist :: provider where
  "ex_hist \<equiv> \<lambda>_ _. Some [ex_bar 1]"

subsection \<open>Reachable caches\<close>

text \<open>
  The caches a process reaches from the empty one by calls at non-decreasing times;
  \<open>now\<close> is the time of the last call.
\<close>

inductive cache_reach :: "ta_lib \<Rightarrow> provider \<Rightarrow> real \<Rightarrow> cache_state \<Rightarrow> bool" where
  start: "cache_reach lib hist now empty_cache"
| call: "cache_reach lib hist now s \<Longrightarrow> now \<le> now' \<Longrightarrow>
           cache_reach lib hist now' (snd (cached_load lib hist now' t s))"

text \<open>
  What a cache entry means: the table is the one \<open>load_data\<close> returned when the entry
  was stored, and it was stored no later than now.
\<close>

definition cache_inv :: "ta_lib \<Rightarrow> provider \<Rightarrow> real \<Rightarrow> cache_state \<Rightarrow> bool" where
  "cache_inv lib hist now s \<longleftrightarrow>
     (\<forall>t v ts. entries s t = Some (v, ts) \<longrightarrow> ts \<le> now \<and> load_data lib (hist ts) t = Inr v)"

text \<open>A ticker whose entry was stored at \<open>t0\<close> or later.\<close>

definition fresh_since :: "real \<Rightarrow> cache_state \<Rightarrow> string \<Rightarrow> bool" where
  "fresh_since t0 s t = (case entries s t of None \<Rightarrow> False | Some (v, ts) \<Rightarrow> t0 \<le> ts)"

subsection \<open>Lemmas\<close>

lemma cache_miss_cases:
  "cache_miss lib hist now t s = (r, s') \<Longrightarrow>
     r = load_data lib (hist now) t \<and> fetches s' = Suc (fetches s) \<and>
     entries s' = (case r of Inl _ \<Rightarrow> entries s | Inr v \<Rightarrow> (entries s)(t \<mapsto> (v, now)))"
  by (auto simp: cache_miss_def split: sum.splits)

lemma cache_inv_mono: "cache_inv lib hist now s \<Longrightarrow> now \<le> now' \<Longrightarrow> cache_inv lib hist now' s"
  by (force simp: cache_inv_def)

lemma cache_inv_miss:
  "cache_inv lib hist now s \<Longrightarrow> cache_inv lib hist now (snd (cache_miss lib hist now t s))"
  by (auto simp: cache_inv_def cache_miss_def split: sum.splits)

lemma cache_inv_step:
  "cache_inv lib hist now s \<Longrightarrow> cache_inv lib hist now (snd (cached_load lib hist now t s))"
  by (auto simp: cached_load_def cache_inv_miss split: option.splits)

lemma cache_inv_empty: "cache_inv lib hist now empty_cache"
  by (simp add: cache_inv_def empty_cache_def)

lemma cached_load_cases:
  assumes "cache_inv lib hist now s" and "cached_load lib hist now t s = (r, s')"
  shows "(\<exists>ts. ts \<le> now \<and> now < ts + cache_ttl \<and> r = load_data lib (hist ts) t) \<and>
    cache_inv lib hist now s'"
proof (cases "entries s t")
  case None
  with assms show ?thesis
    using cache_inv_miss [OF assms(1), of t] cache_miss_cases [of lib hist now t s r s']
    by (auto simp: cached_load_def cache_ttl_def)
next
  case (Some e)
  obtain v ts where e: "e = (v, ts)" by (cases e)
  show ?thesis
  proof (cases "now < ts + cache_ttl")
    case True
    from assms(1) Some e have "ts \<le> now" and "load_data lib (hist ts) t = Inr v"
      by (auto simp: cache_inv_def)
    with True assms Some e show ?thesis
      by (auto simp: cached_load_def intro!: exI [of _ ts])
  next
    case False
    with assms Some e show ?thesis
      using cache_inv_miss [OF assms(1), of t] cache_miss_cases [of lib hist now t s r s']
      by (auto simp: cached_load_def cache_ttl_def)
  qed
qed

lemma cached_load_stored:
  assumes "cached_load lib hist ts t s = (Inr v, s')" and "fetches s' = Suc (fetches s)"
  shows "entries s' t = Some (v, ts)"
  using assms cache_miss_cases [of lib hist ts t s "Inr v" s']
  by (auto simp: cached_load_def split: option.splits if_splits)

lemma cached_load_hit:
  assumes "entries s t = Some (v, ts)" and "now < ts + cache_ttl"
  shows "cached_load lib hist now t s = (Inr v, s)"
  using assms by (simp add: cached_load_def)


lemma cached_load_window_step:
  assumes "t0 \<le> n" and "n < t0 + cache_ttl" and "load_data lib (hist n) t = Inr v"
  shows "snd (cached_load lib hist n t s) = s \<or>
    (\<not> fresh_since t0 s t \<and> fetches (snd (cached_load lib hist n t s)) = Suc (fetches s) \<and>
     {u. fresh_since t0 (snd (cached_load lib hist n t s)) u} = insert t {u. fresh_since t0 s u})"
proof (cases "entries s t")
  case None
  with assms show ?thesis
    by (auto simp: cached_load_def cache_miss_def fresh_since_def)
next
  case (Some e)
  obtain w ts where e: "e = (w, ts)" by (cases e)
  show ?thesis
  proof (cases "n < ts + cache_ttl")
    case True
    with Some e show ?thesis by (simp add: cached_load_def)
  next
    case False
    with assms Some e have "\<not> t0 \<le> ts" by linarith
    with assms Some e False show ?thesis
      by (auto simp: cached_load_def cache_miss_def fresh_since_def)
  qed
qed

lemma serve_all_window_fetches:
  assumes "\<forall>(n, t)\<in>set rs. t0 \<le> n \<and> n < t0 + cache_ttl \<and> (\<exists>v. load_data lib (hist n) t = Inr v)"
  shows "fetches (snd (serve_all lib hist s rs)) \<le>
    fetches s + card (set (map snd rs) - {u. fresh_since t0 s u})"
  using assms
proof (induction rs arbitrary: s)
  case Nil
  then show ?case by simp
next
  case (Cons q rs)
  obtain n t where q: "q = (n, t)" by (cases q)
  let ?s1 = "snd (cached_load lib hist n t s)"
  let ?F = "\<lambda>s. {u. fresh_since t0 s u}"
  from Cons.prems q obtain v where w: "t0 \<le> n" "n < t0 + cache_ttl" "load_data lib (hist n) t = Inr v"
    by auto
  from Cons.prems have ih: "fetches (snd (serve_all lib hist ?s1 rs)) \<le>
      fetches ?s1 + card (set (map snd rs) - ?F ?s1)"
    by (intro Cons.IH) auto
  have sa: "snd (serve_all lib hist s (q # rs)) = snd (serve_all lib hist ?s1 rs)"
    by (simp add: q split_def Let_def)
  have fin: "finite (set (map snd rs) - ?F s)" by simp
  have mono: "card (set (map snd rs) - ?F s) \<le> card (set (map snd (q # rs)) - ?F s)"
    by (rule card_mono) (auto simp: q)
  from cached_load_window_step [where lib = lib and hist = hist and t = t and s = s, OF w] show ?case
  proof
    assume "?s1 = s"
    with ih mono sa show ?thesis by simp
  next
    assume m: "\<not> fresh_since t0 s t \<and> fetches ?s1 = Suc (fetches s) \<and> ?F ?s1 = insert t (?F s)"
    then have "set (map snd (q # rs)) - ?F s = insert t (set (map snd rs) - ?F ?s1)"
      by (auto simp: q)
    moreover have "t \<notin> set (map snd rs) - ?F ?s1" using m by simp
    ultimately have "card (set (map snd (q # rs)) - ?F s) = Suc (card (set (map snd rs) - ?F ?s1))"
      by simp
    with ih m sa show ?thesis by simp
  qed
qed

subsection \<open>Properties of the cache\<close>

text \<open>
  C18: in every cache reachable by calls at non-decreasing times, every entry holds
  the table that \<open>load_data\<close> returned when the entry was stored, no later than
  the current time.
\<close>

theorem cache_reach_inv: "cache_reach lib hist now s \<Longrightarrow> cache_inv lib hist now s"
proof (induction rule: cache_reach.induct)
  case (start lib hist now)
  show ?case by (rule cache_inv_empty)
next
  case (call lib hist now s now' t)
  then have "cache_inv lib hist now' s" by (blast intro: cache_inv_mono)
  then show ?case by (rule cache_inv_step)
qed

text \<open>
  C19: a cached call returns what an uncached \<open>load_data\<close> returned less than 60
  seconds earlier (at most 60 seconds stale), and keeps the cache invariant.
\<close>

theorem cached_load_fresh:
  assumes "cache_inv lib hist now s" and "cached_load lib hist now t s = (r, s')"
  shows "(\<exists>ts. ts \<le> now \<and> now < ts + cache_ttl \<and> r = load_data lib (hist ts) t) \<and>
    cache_inv lib hist now s'"
  using assms by (rule cached_load_cases)

text \<open>
  C20: when the provider's answer does not change over time, the cache is invisible:
  a cached call returns exactly what \<open>load_data\<close> returns.
\<close>

theorem cached_load_transparent:
  assumes "cache_inv lib (\<lambda>_. h) now s"
  shows "fst (cached_load lib (\<lambda>_. h) now t s) = load_data lib h t"
proof -
  obtain r s' where c: "cached_load lib (\<lambda>_. h) now t s = (r, s')"
    by (cases "cached_load lib (\<lambda>_. h) now t s")
  from cached_load_cases [OF assms c] c show ?thesis by auto
qed

text \<open>
  C21: after a call that fetched and stored a table at time \<open>ts\<close>, every further
  call for the same ticker before \<open>ts + 60\<close> is answered from the cache with that
  table and reaches the provider no more.
\<close>

theorem serve_all_within_ttl:
  assumes first: "cached_load lib hist ts t s = (Inr v, s')" and fetched: "fetches s' = Suc (fetches s)"
    and window: "\<forall>(n, u)\<in>set rs. u = t \<and> ts \<le> n \<and> n < ts + cache_ttl"
  shows "serve_all lib hist s' rs = (replicate (length rs) (Inr v), s')"
proof -
  have stored: "entries s' t = Some (v, ts)" using first fetched by (rule cached_load_stored)
  from window show ?thesis
  proof (induction rs)
    case Nil
    then show ?case by simp
  next
    case (Cons q rs)
    obtain n u where q: "q = (n, u)" by (cases q)
    with Cons.prems have "u = t" and "n < ts + cache_ttl" by auto
    with stored have "cached_load lib hist n u s' = (Inr v, s')" by (simp add: cached_load_hit)
    with Cons q show ?case by simp
  qed
qed

text \<open>
  C22: an error comes from a fresh provider call and is not cached: the entries are
  unchanged and the next call retries.
\<close>

theorem cached_load_error:
  assumes "cached_load lib hist now t s = (Inl e, s')"
  shows "load_data lib (hist now) t = Inl e \<and> entries s' = entries s \<and> fetches s' = Suc (fetches s)"
  using assms cache_miss_cases [of lib hist now t s "Inl e" s']
  by (auto simp: cached_load_def split: option.splits if_splits)

text \<open>
  C23: with a provider whose answer does not change over time, a sequence of calls at
  non-decreasing times, starting from a cache that satisfies the invariant, returns
  exactly what calling \<open>load_data\<close> without a cache would return, call by call.
\<close>

theorem serve_all_transparent:
  assumes "cache_inv lib (\<lambda>_. h) now s" and "sorted (now # map fst rs)"
  shows "fst (serve_all lib (\<lambda>_. h) s rs) = map (\<lambda>(n, t). load_data lib h t) rs"
  using assms
proof (induction rs arbitrary: s now)
  case Nil
  then show ?case by simp
next
  case (Cons q rs)
  obtain n t where q: "q = (n, t)" by (cases q)
  obtain r s' where c: "cached_load lib (\<lambda>_. h) n t s = (r, s')"
    by (cases "cached_load lib (\<lambda>_. h) n t s")
  from Cons.prems q have le: "now \<le> n" and so: "sorted (n # map fst rs)" by auto
  from cache_inv_mono [OF Cons.prems(1) le] have "cache_inv lib (\<lambda>_. h) n s" .
  from cached_load_cases [OF this c] have "r = load_data lib h t" and "cache_inv lib (\<lambda>_. h) n s'"
    by auto
  with Cons.IH [OF _ so] c q show ?case by (simp add: split_def)
qed

text \<open>
  C24: within one 60-second window, when every download succeeds, the provider is
  called at most once per distinct ticker, however many calls are made: a cache that
  re-downloaded on a call within the window would exceed the bound.
\<close>

theorem serve_all_one_fetch_per_ticker:
  assumes "\<forall>(n, t)\<in>set rs. t0 \<le> n \<and> n < t0 + cache_ttl \<and> (\<exists>v. load_data lib (hist n) t = Inr v)"
  shows "fetches (snd (serve_all lib hist s rs)) \<le> fetches s + card (set (map snd rs))"
proof -
  have "card (set (map snd rs) - {u. fresh_since t0 s u}) \<le> card (set (map snd rs))"
    by (rule card_mono) auto
  moreover have "fetches (snd (serve_all lib hist s rs)) \<le>
      fetches s + card (set (map snd rs) - {u. fresh_since t0 s u})"
    using assms by (rule serve_all_window_fetches)
  ultimately show ?thesis by linarith
qed

lemma cache_reach_inv_witness:
  "cache_reach ex_lib ex_hist 5 (snd (cached_load ex_lib ex_hist 5 ''BBNI.JK'' empty_cache)) \<and>
   cache_inv ex_lib ex_hist 5 (snd (cached_load ex_lib ex_hist 5 ''BBNI.JK'' empty_cache))"
proof -
  have "cache_reach ex_lib ex_hist 5 empty_cache" by (rule cache_reach.start)
  then have r: "cache_reach ex_lib ex_hist 5 (snd (cached_load ex_lib ex_hist 5 ''BBNI.JK'' empty_cache))"
    by (rule cache_reach.call) simp
  show ?thesis using cache_reach_inv [OF r] r by simp
qed

lemma cached_load_fresh_witness:
  "cache_inv ex_lib ex_hist 0 empty_cache \<and>
   (case cached_load ex_lib ex_hist 0 ''BBNI.JK'' empty_cache of (r, s') \<Rightarrow>
      (\<exists>ts. ts \<le> 0 \<and> 0 < ts + cache_ttl \<and> r = load_data ex_lib (ex_hist ts) ''BBNI.JK'') \<and>
      cache_inv ex_lib ex_hist 0 s')"
proof -
  have inv: "cache_inv ex_lib ex_hist 0 empty_cache" by (rule cache_inv_empty)
  obtain r s' where c: "cached_load ex_lib ex_hist 0 ''BBNI.JK'' empty_cache = (r, s')"
    by (cases "cached_load ex_lib ex_hist 0 ''BBNI.JK'' empty_cache")
  show ?thesis using cached_load_fresh [OF inv c] inv c by simp
qed

lemma cached_load_transparent_witness:
  "cache_inv ex_lib (\<lambda>_. ex_hist 0) 0 empty_cache \<and>
   fst (cached_load ex_lib (\<lambda>_. ex_hist 0) 0 ''BBNI.JK'' empty_cache) = load_data ex_lib (ex_hist 0) ''BBNI.JK''"
proof -
  have inv: "cache_inv ex_lib (\<lambda>_. ex_hist 0) 0 empty_cache" by (rule cache_inv_empty)
  show ?thesis using cached_load_transparent [OF inv] inv by simp
qed

lemma serve_all_within_ttl_witness:
  "case cached_load ex_lib ex_hist 0 ''BBNI.JK'' empty_cache of
     (Inr v, s') \<Rightarrow> fetches s' = Suc (fetches empty_cache) \<and>
       serve_all ex_lib ex_hist s' [(10, ''BBNI.JK''), (59.5, ''BBNI.JK'')] = (replicate 2 (Inr v), s')
   | _ \<Rightarrow> False"
proof -
  obtain v s' where c: "cached_load ex_lib ex_hist 0 ''BBNI.JK'' empty_cache = (Inr v, s')"
    and f: "fetches s' = Suc (fetches empty_cache)"
    by (simp add: cached_load_def empty_cache_def cache_miss_def load_data_def)
  have w: "\<forall>(n, u)\<in>set [(10, ''BBNI.JK''), (59.5::real, ''BBNI.JK'')]. u = ''BBNI.JK'' \<and> 0 \<le> n \<and> n < 0 + cache_ttl"
    by (simp add: cache_ttl_def)
  have r: "serve_all ex_lib ex_hist s' [(10, ''BBNI.JK''), (59.5, ''BBNI.JK'')] = (replicate 2 (Inr v), s')"
    using serve_all_within_ttl [OF c f w] by (simp only: length_Cons list.size numeral_2_eq_2)
  show ?thesis by (simp only: c prod.case sum.case r f simp_thms)
qed

lemma cached_load_error_witness:
  "case cached_load ex_lib (\<lambda>_ _. None) 0 ''XXXX.JK'' empty_cache of
     (Inl e, s') \<Rightarrow> load_data ex_lib ((\<lambda>_ _. None) 0) ''XXXX.JK'' = Inl e \<and>
       entries s' = entries empty_cache \<and> fetches s' = Suc (fetches empty_cache)
   | _ \<Rightarrow> False"
proof -
  obtain e s' where c: "cached_load ex_lib (\<lambda>_ _. None) 0 ''XXXX.JK'' empty_cache = (Inl e, s')"
    by (simp add: cached_load_def empty_cache_def cache_miss_def load_data_def)
  show ?thesis using cached_load_error [OF c] c by simp
qed

lemma serve_all_transparent_witness:
  "cache_inv ex_lib (\<lambda>_. ex_hist 0) 0 empty_cache \<and>
   sorted (0 # map fst [(1::real, ''BBNI.JK''), (90, ''BBNI.JK'')]) \<and>
   fst (serve_all ex_lib (\<lambda>_. ex_hist 0) empty_cache [(1, ''BBNI.JK''), (90, ''BBNI.JK'')]) =
     map (\<lambda>(n, t). load_data ex_lib (ex_hist 0) t) [(1::real, ''BBNI.JK''), (90, ''BBNI.JK'')]"
proof -
  have i: "cache_inv ex_lib (\<lambda>_. ex_hist 0) 0 empty_cache" by (rule cache_inv_empty)
  have o: "sorted (0 # map fst [(1::real, ''BBNI.JK''), (90, ''BBNI.JK'')])" by simp
  show ?thesis using serve_all_transparent [OF i o] i o by blast
qed

lemma serve_all_one_fetch_per_ticker_witness:
  "list_all (\<lambda>(n, t). 0 \<le> n \<and> n < 0 + cache_ttl \<and> (\<exists>v. load_data ex_lib (ex_hist n) t = Inr v))
     [(0, ''BBNI.JK''), (10, ''BBNI.JK''), (59, ''BBCA.JK''), (59.5, ''BBNI.JK'')] \<and>
   fetches (snd (serve_all ex_lib ex_hist empty_cache
     [(0, ''BBNI.JK''), (10, ''BBNI.JK''), (59, ''BBCA.JK''), (59.5, ''BBNI.JK'')])) \<le>
   fetches empty_cache + card (set (map snd
     [(0::real, ''BBNI.JK''), (10, ''BBNI.JK''), (59, ''BBCA.JK''), (59.5, ''BBNI.JK'')]))"
proof -
  have h: "\<forall>(n, t)\<in>set [(0::real, ''BBNI.JK''), (10, ''BBNI.JK''), (59, ''BBCA.JK''), (59.5, ''BBNI.JK'')].
      0 \<le> n \<and> n < 0 + cache_ttl \<and> (\<exists>v. load_data ex_lib (ex_hist n) t = Inr v)"
    by (simp add: cache_ttl_def load_data_def)
  show ?thesis
    using serve_all_one_fetch_per_ticker [OF h] h by (simp only: list_all_iff simp_thms)
qed

end
