(* ===== verification/News.thy ===== *)
theory News
  imports Ticker
begin

text \<open>
  The news fetcher \<open>get_news\<close> of \<open>src/app.py\<close> (lines 62--66): the search query
  is the ticker with every \<open>.JK\<close> removed (\<open>str.replace\<close>), the URL embeds it
  unescaped, the feed parser is a parameter from URLs to entries (dictionaries), and
  the first \<open>n\<close> entries become title / link pairs with \<open>""\<close> for a missing field.
\<close>

subsection \<open>\<open>str.replace(old, new)\<close>\<close>

text \<open>
  Python scans left to right and replaces non-overlapping occurrences; with an empty
  \<open>old\<close> it inserts \<open>new\<close> before every character and at the end.
\<close>

function py_replace_ne :: "string \<Rightarrow> string \<Rightarrow> string \<Rightarrow> string" where
  "py_replace_ne old new s =
     (if s = [] then []
      else if old \<noteq> [] \<and> prefix old s then new @ py_replace_ne old new (drop (length old) s)
      else hd s # py_replace_ne old new (tl s))"
  by pat_completeness auto
termination
  by (relation "measure (\<lambda>(old, new, s). length s)") auto

declare py_replace_ne.simps [simp del]

definition py_replace :: "string \<Rightarrow> string \<Rightarrow> string \<Rightarrow> string" where
  "py_replace s old new =
     (if old = [] then new @ concat (map (\<lambda>c. c # new) s) else py_replace_ne old new s)"

subsection \<open>\<open>get_news\<close>\<close>

record news_item =
  title :: string
  link :: string

definition news_query :: "string \<Rightarrow> string" where
  "news_query ticker = py_replace ticker ''.JK'' ''''"

definition news_url :: "string \<Rightarrow> string" where
  "news_url q = ''https://news.google.com/rss/search?q='' @ q @ ''+saham+OR+stock&hl=id&gl=ID&ceid=ID:id''"

definition news_of :: "py_dict \<Rightarrow> news_item" where
  "news_of e = \<lparr>title = py_get e ''title'' '''', link = py_get e ''link'' ''''\<rparr>"

definition get_news :: "(string \<Rightarrow> py_dict list) \<Rightarrow> string \<Rightarrow> int \<Rightarrow> news_item list" where
  "get_news parse ticker n =
     (let q = news_query ticker; url = news_url q in map news_of (py_slice_to (parse url) n))"

abbreviation ex_entry :: py_dict where
  "ex_entry \<equiv> [(''title'', ''T''), (''link'', ''L'')]"

text \<open>A feed of 12 entries whose third entry has no title.\<close>

abbreviation ex_feed :: "string \<Rightarrow> py_dict list" where
  "ex_feed \<equiv> \<lambda>_. [ex_entry, ex_entry, [(''link'', ''L'')]] @ replicate 9 ex_entry"

subsection \<open>Lemmas\<close>

lemma py_replace_ne_Nil [simp]: "py_replace_ne old new [] = []"
  by (simp add: py_replace_ne.simps)

lemma py_replace_ne_keep:
  assumes "old \<noteq> []" and "hd old \<notin> set u"
  shows "py_replace_ne old new (u @ ys) = u @ py_replace_ne old new ys"
  using assms(2)
proof (induction u)
  case Nil
  then show ?case by simp
next
  case (Cons c u)
  with assms(1) have "\<not> prefix old (c # u @ ys)"
    by (cases old) auto
  with Cons show ?case
    by (simp add: py_replace_ne.simps [of old new "c # u @ ys"])
qed

lemma py_replace_ne_self:
  assumes "old \<noteq> []"
  shows "py_replace_ne old new old = new"
  using assms by (simp add: py_replace_ne.simps [of old new old])

lemma news_query_suffix:
  assumes "CHR ''.'' \<notin> set u"
  shows "news_query (u @ DEFAULT_SUFFIX) = u"
proof -
  have "py_replace_ne ''.JK'' '''' (u @ ''.JK'') = u @ py_replace_ne ''.JK'' '''' ''.JK''"
    using assms by (intro py_replace_ne_keep) simp_all
  then show ?thesis
    by (simp add: news_query_def py_replace_def DEFAULT_SUFFIX_def py_replace_ne_self)
qed

subsection \<open>Properties of the news fetcher\<close>

text \<open>
  C25: for a non-negative count \<open>n\<close>, \<open>get_news\<close> returns \<open>min n (entries)\<close>
  items, made one by one from the first \<open>n\<close> feed entries in feed order.
\<close>

theorem get_news_items:
  assumes "0 \<le> n"
  shows "length (get_news parse t n) = min (nat n) (length (parse (news_url (news_query t)))) \<and>
    get_news parse t n = map news_of (take (nat n) (parse (news_url (news_query t))))"
  using assms by (simp add: get_news_def py_simps)

lemma get_news_items_witness:
  "length (get_news ex_feed ''BBNI.JK'' 8) = min (nat 8) (length (ex_feed (news_url (news_query ''BBNI.JK'')))) \<and>
   get_news ex_feed ''BBNI.JK'' 8 = map news_of (take (nat 8) (ex_feed (news_url (news_query ''BBNI.JK''))))"
  by (rule get_news_items) simp

text \<open>
  The specification's example: a feed of 12 entries, \<open>n = 8\<close>, gives exactly
  the first 8 in order, and the entry without a title gives an empty title, not a
  failure. A negative count would slice from the end (11 of 12 for \<open>-1\<close>).
\<close>

theorem get_news_example:
  "get_news ex_feed ''BBNI.JK'' 8 =
     [\<lparr>title = ''T'', link = ''L''\<rparr>, \<lparr>title = ''T'', link = ''L''\<rparr>, \<lparr>title = '''', link = ''L''\<rparr>] @
     replicate 5 \<lparr>title = ''T'', link = ''L''\<rparr> \<and>
   length (get_news ex_feed ''BBNI.JK'' (-1)) = 11"
  by (simp add: get_news_def py_slice_to_def news_of_def py_get_def numeral_eq_Suc)

text \<open>
  C26: for an input without a dot, the news query of the normalised ticker is the
  trimmed, upper-cased input: removing \<open>.JK\<close> undoes the suffix the normaliser added.
\<close>

theorem news_query_normalize:
  assumes "CHR ''.'' \<notin> set t"
  shows "news_query (normalize_ticker t) = py_upper (py_strip t)"
proof -
  have "CHR ''.'' \<notin> set (py_upper (py_strip t))"
    using assms by (simp add: set_py_strip_nonspace)
  then show ?thesis
    by (simp add: normalize_ticker_def news_query_suffix)
qed

lemma news_query_normalize_witness:
  "CHR ''.'' \<notin> set ''  bbni '' \<and> news_query (normalize_ticker ''  bbni '') = py_upper (py_strip ''  bbni '')"
proof -
  have h: "CHR ''.'' \<notin> set ''  bbni ''" by simp
  show ?thesis using news_query_normalize [OF h] h by simp
qed

text \<open>
  \<open>str.replace\<close> removes every \<open>.JK\<close>, not only a trailing suffix
  (\<open>A.JKB.JK\<close> gives \<open>AB\<close>, and \<open>..JKJK\<close> still contains \<open>.JK\<close> afterwards),
  other market codes are kept, and the query is put into the URL unescaped, so a
  \<open>&\<close> in the input adds URL parameters.
\<close>

theorem news_query_examples:
  "news_query ''BBNI.JK'' = ''BBNI'' \<and> news_query ''A.JKB.JK'' = ''AB'' \<and>
   news_query ''..JKJK'' = ''.JK'' \<and> news_query ''BBCA.XX'' = ''BBCA.XX'' \<and>
   news_url (news_query (normalize_ticker ''x&hl=en'')) =
     ''https://news.google.com/rss/search?q=X&HL=EN+saham+OR+stock&hl=id&gl=ID&ceid=ID:id''"
  by code_simp

end
