(* ===== verification/Format.thy ===== *)
theory Format
  imports Prelude
begin

text \<open>
  Python's format specification \<open>",.0f"\<close> used for every number the page shows
  (\<open>src/app.py\<close>, lines 79 and 84--88): round to an integer, half to even, write
  the digits in decimal, insert a comma before every group of three digits counted
  from the right, and put a minus sign in front of a negative number (also when it
  rounds to zero: \<open>-0.4\<close> gives \<open>"-0"\<close>). Floats are reals here, so the rounding
  is that of the exact value.
\<close>

definition round_half_even :: "real \<Rightarrow> int" where
  "round_half_even x =
     (let f = \<lfloor>x\<rfloor>; d = x - of_int f in
      if d < 1/2 then f else if 1/2 < d then f + 1 else if even f then f else f + 1)"

definition digit_char :: "nat \<Rightarrow> char" where
  "digit_char d = ''0123456789'' ! d"

fun show_nat :: "nat \<Rightarrow> string" where
  "show_nat n = (if n < 10 then [digit_char n] else show_nat (n div 10) @ [digit_char (n mod 10)])"

declare show_nat.simps [simp del]

function group3 :: "string \<Rightarrow> string" where
  "group3 ds =
     (if length ds \<le> 3 then ds
      else group3 (take (length ds - 3) ds) @ CHR '','' # drop (length ds - 3) ds)"
  by pat_completeness auto
termination
  by (relation "measure length") auto

declare group3.simps [simp del]

definition fmt_thousands :: "real \<Rightarrow> string" where
  "fmt_thousands x =
     (if x < 0 then ''-'' else '''') @ group3 (show_nat (nat (round_half_even \<bar>x\<bar>)))"

text \<open>Reading the digits back, for the round trip.\<close>

definition read_nat :: "string \<Rightarrow> nat" where
  "read_nat s = foldl (\<lambda>acc c. 10 * acc + (of_char c - 48)) 0 s"

subsection \<open>Lemmas\<close>

lemma of_char_digit_char: "d < 10 \<Longrightarrow> of_char (digit_char d) = 48 + d"
proof -
  assume "d < 10"
  then have "d \<in> {0, 1, 2, 3, 4, 5, 6, 7, 8, 9}" by auto
  then show ?thesis by (auto simp: digit_char_def)
qed

lemma digit_char_not_comma: "d < 10 \<Longrightarrow> digit_char d \<noteq> CHR '',''"
proof
  assume "d < 10" and "digit_char d = CHR '',''"
  then have "(48 + d :: nat) = of_char (CHR '','')" by (metis of_char_digit_char)
  then show False by simp
qed

lemma comma_not_in_show_nat: "CHR '','' \<notin> set (show_nat n)"
proof (induction n rule: show_nat.induct)
  case (1 n)
  have "CHR '','' \<noteq> digit_char (n mod 10)" and "n < 10 \<Longrightarrow> CHR '','' \<noteq> digit_char n"
    by (simp_all add: digit_char_not_comma [symmetric])
  with "1.IH" show ?case
    by (subst show_nat.simps) auto
qed

lemma read_nat_snoc: "read_nat (xs @ [c]) = 10 * read_nat xs + (of_char c - 48)"
  by (simp add: read_nat_def)

lemma read_show_nat: "read_nat (show_nat n) = n"
proof (induction n rule: show_nat.induct)
  case (1 n)
  show ?case
  proof (cases "n < 10")
    case True
    then show ?thesis
      by (simp add: show_nat.simps [of n] read_nat_def of_char_digit_char)
  next
    case False
    with "1.IH" have "read_nat (show_nat (n div 10)) = n div 10" by simp
    with False show ?thesis
      by (simp add: show_nat.simps [of n] read_nat_snoc of_char_digit_char)
  qed
qed

lemma group3_no_comma:
  "filter (\<lambda>c. c \<noteq> CHR '','') (group3 ds) = filter (\<lambda>c. c \<noteq> CHR '','') ds"
proof (induction ds rule: group3.induct)
  case (1 ds)
  show ?case
  proof (cases "length ds \<le> 3")
    case True
    then show ?thesis by (simp add: group3.simps [of ds])
  next
    case False
    with "1.IH" have "filter (\<lambda>c. c \<noteq> CHR '','') (group3 (take (length ds - 3) ds)) =
        filter (\<lambda>c. c \<noteq> CHR '','') (take (length ds - 3) ds)" by simp
    with False show ?thesis
      by (simp add: group3.simps [of ds] filter_append [symmetric])
  qed
qed

lemma group3_shape:
  "ds \<noteq> [] \<Longrightarrow> \<exists>g gs. group3 ds = g @ concat (map (\<lambda>h. CHR '','' # h) gs) \<and>
     1 \<le> length g \<and> length g \<le> 3 \<and> list_all (\<lambda>h. length h = 3) gs \<and> g @ concat gs = ds"
proof (induction ds rule: group3.induct)
  case (1 ds)
  show ?case
  proof (cases "length ds \<le> 3")
    case True
    with "1.prems" show ?thesis
      by (intro exI [of _ ds] exI [of _ "[]"]) (simp add: group3.simps [of ds] Suc_le_eq)
  next
    case False
    let ?a = "take (length ds - 3) ds" and ?b = "drop (length ds - 3) ds"
    from False "1.prems" have "?a \<noteq> []" by simp
    with "1.IH" False obtain g gs where
      IH: "group3 ?a = g @ concat (map (\<lambda>h. CHR '','' # h) gs)" "1 \<le> length g" "length g \<le> 3"
        "list_all (\<lambda>h. length h = 3) gs" "g @ concat gs = ?a"
      by auto
    from False have "length ?b = 3" by simp
    have "g @ concat (gs @ [?b]) = (g @ concat gs) @ ?b" by simp
    also have "\<dots> = ds" by (simp only: IH(5) append_take_drop_id)
    finally have "g @ concat (gs @ [?b]) = ds" .
    with IH False \<open>length ?b = 3\<close> show ?thesis
      by (intro exI [of _ g] exI [of _ "gs @ [?b]"]) (simp add: group3.simps [of ds])
  qed
qed

lemma round_half_even_cases:
  "let f = \<lfloor>x\<rfloor>; d = x - of_int f in
     0 \<le> d \<and> d < 1 \<and>
     round_half_even x = (if d < 1/2 then f else if 1/2 < d then f + 1 else if even f then f else f + 1)"
  by (simp add: round_half_even_def Let_def) linarith

lemma show_nat_nonempty: "show_nat n \<noteq> []"
  by (subst show_nat.simps) simp

lemma fmt_thousands_abs:
  "fmt_thousands x = (if x < 0 then ''-'' else '''') @ fmt_thousands \<bar>x\<bar>"
  by (simp add: fmt_thousands_def)

lemma round_half_even_mono:
  assumes "x \<le> y"
  shows "round_half_even x \<le> round_half_even y"
proof -
  have fm: "\<lfloor>x\<rfloor> \<le> \<lfloor>y\<rfloor>" using assms by (rule floor_mono)
  have x: "0 \<le> x - of_int \<lfloor>x\<rfloor>" "x - of_int \<lfloor>x\<rfloor> < 1"
    and rx: "round_half_even x = (if x - of_int \<lfloor>x\<rfloor> < 1/2 then \<lfloor>x\<rfloor>
       else if 1/2 < x - of_int \<lfloor>x\<rfloor> then \<lfloor>x\<rfloor> + 1 else if even \<lfloor>x\<rfloor> then \<lfloor>x\<rfloor> else \<lfloor>x\<rfloor> + 1)"
    using round_half_even_cases [of x] by (simp_all add: Let_def)
  have y: "0 \<le> y - of_int \<lfloor>y\<rfloor>" "y - of_int \<lfloor>y\<rfloor> < 1"
    and ry: "round_half_even y = (if y - of_int \<lfloor>y\<rfloor> < 1/2 then \<lfloor>y\<rfloor>
       else if 1/2 < y - of_int \<lfloor>y\<rfloor> then \<lfloor>y\<rfloor> + 1 else if even \<lfloor>y\<rfloor> then \<lfloor>y\<rfloor> else \<lfloor>y\<rfloor> + 1)"
    using round_half_even_cases [of y] by (simp_all add: Let_def)
  show ?thesis
  proof (cases "\<lfloor>x\<rfloor> < \<lfloor>y\<rfloor>")
    case True
    with rx ry show ?thesis by (simp split: if_splits)
  next
    case False
    with fm have eq: "\<lfloor>x\<rfloor> = \<lfloor>y\<rfloor>" by simp
    with assms have "x - of_int \<lfloor>x\<rfloor> \<le> y - of_int \<lfloor>y\<rfloor>" by simp
    with eq rx ry show ?thesis by (auto split: if_splits)
  qed
qed

lemma read_fmt_abs:
  "read_nat (filter (\<lambda>c. c \<noteq> CHR '','') (fmt_thousands \<bar>x\<bar>)) = nat (round_half_even \<bar>x\<bar>)"
proof -
  let ?m = "nat (round_half_even \<bar>x\<bar>)"
  have "filter (\<lambda>c. c \<noteq> CHR '','') (show_nat ?m) = show_nat ?m"
    using comma_not_in_show_nat [of ?m] by (auto simp: filter_id_conv)
  then have "filter (\<lambda>c. c \<noteq> CHR '','') (fmt_thousands \<bar>x\<bar>) = show_nat ?m"
    by (simp add: fmt_thousands_def group3_no_comma)
  then show ?thesis by (simp add: read_show_nat)
qed

subsection \<open>Properties of the number format\<close>

text \<open>
  C27: the format is a sign followed by the format of the magnitude, and removing the
  grouping commas from the magnitude's format and reading the digits gives back the
  rounded magnitude.
\<close>

theorem fmt_thousands_roundtrip:
  "fmt_thousands x = (if x < 0 then ''-'' else '''') @ fmt_thousands \<bar>x\<bar> \<and>
   read_nat (filter (\<lambda>c. c \<noteq> CHR '','') (fmt_thousands \<bar>x\<bar>)) = nat (round_half_even \<bar>x\<bar>)"
  by (simp add: fmt_thousands_abs [of x] read_fmt_abs)

text \<open>
  C28: rounding moves a value by at most one half, and a value exactly half-way
  between two integers goes to the even one.
\<close>

theorem round_half_even_bounds:
  "\<bar>x - of_int (round_half_even x)\<bar> \<le> 1/2 \<and>
   (\<bar>x - of_int (round_half_even x)\<bar> < 1/2 \<or> even (round_half_even x))"
proof -
  let ?f = "\<lfloor>x\<rfloor>"
  let ?d = "x - of_int ?f"
  have d: "0 \<le> ?d" "?d < 1"
    and r: "round_half_even x = (if ?d < 1/2 then ?f else if 1/2 < ?d then ?f + 1
                                  else if even ?f then ?f else ?f + 1)"
    using round_half_even_cases [of x] by (simp_all add: Let_def)
  consider "?d < 1/2" | "1/2 < ?d" | "?d = 1/2" by linarith
  then show ?thesis
  proof cases
    case 1
    with d r show ?thesis by simp
  next
    case 2
    with d r show ?thesis by (simp add: abs_if)
  next
    case 3
    with r show ?thesis by (cases "even ?f") (simp_all add: abs_if)
  qed
qed

text \<open>
  C29: the digits are grouped in threes from the right: a first group of one to
  three digits, then groups of exactly three, each after a comma; together they are
  the decimal digits of the rounded magnitude.
\<close>

theorem fmt_thousands_grouping:
  "\<exists>g gs. fmt_thousands x = (if x < 0 then ''-'' else '''') @ g @ concat (map (\<lambda>h. CHR '','' # h) gs) \<and>
     1 \<le> length g \<and> length g \<le> 3 \<and> list_all (\<lambda>h. length h = 3) gs \<and>
     g @ concat gs = show_nat (nat (round_half_even \<bar>x\<bar>))"
  using group3_shape [OF show_nat_nonempty [of "nat (round_half_even \<bar>x\<bar>)"]]
  by (auto simp: fmt_thousands_def)

text \<open>
  C30: the display never inverts an order: of two non-negative amounts, the smaller
  one is shown as a number no larger than the larger one (it may be shown as the
  same number).
\<close>

theorem fmt_thousands_mono:
  assumes "0 \<le> x" and "x \<le> y"
  shows "read_nat (filter (\<lambda>c. c \<noteq> CHR '','') (fmt_thousands x)) \<le>
         read_nat (filter (\<lambda>c. c \<noteq> CHR '','') (fmt_thousands y))"
proof -
  from assms have "x = \<bar>x\<bar>" "y = \<bar>y\<bar>" by simp_all
  moreover have "nat (round_half_even \<bar>x\<bar>) \<le> nat (round_half_even \<bar>y\<bar>)"
    using assms by (simp add: nat_mono round_half_even_mono)
  ultimately show ?thesis by (metis read_fmt_abs)
qed

lemma fmt_thousands_mono_witness:
  "0 \<le> (999.4::real) \<and> (999.4::real) \<le> 1000.6 \<and>
   read_nat (filter (\<lambda>c. c \<noteq> CHR '','') (fmt_thousands 999.4)) \<le>
   read_nat (filter (\<lambda>c. c \<noteq> CHR '','') (fmt_thousands 1000.6))"
  using fmt_thousands_mono [of "999.4" "1000.6"] by simp

text \<open>
  Concrete values: grouping, half-to-even rounding (2.5 gives 2, 3.5 gives 4),
  a negative value that rounds to zero keeps its sign, and the plan values of the
  specification's wait example (85.85 and 83.725) are shown as 86 and 84.
\<close>

theorem fmt_thousands_examples:
  "fmt_thousands 1234567.5 = ''1,234,568'' \<and> fmt_thousands 2.5 = ''2'' \<and>
   fmt_thousands 3.5 = ''4'' \<and> fmt_thousands (-0.4) = ''-0'' \<and> fmt_thousands 1000 = ''1,000'' \<and>
   fmt_thousands 85.85 = ''86'' \<and> fmt_thousands 83.725 = ''84''"
  by (simp add: fmt_thousands_def round_half_even_def show_nat.simps group3.simps digit_char_def)

end
