(* ===== verification/App.thy ===== *)
theory App
  imports TradePlan Cache News Format
begin

text \<open>
  The page's \<open>Analyze\<close> handler (\<open>src/app.py\<close>, lines 71--95): normalise the
  input, load the table through the cache, build the plan, render it with the news,
  and turn any exception into a single \<open>st.error(str(e))\<close>. The page is modelled as
  the list of elements the handler emits, in order; the emoji of the two headings are
  written as their UTF-8 bytes.
\<close>

datatype st_elem =
    Subheader string
  | Metric string string
  | Success string
  | Caption string
  | Write string
  | Markdown string
  | Error string

definition emoji_target :: string where
  "emoji_target = [CHR 0xF0, CHR 0x9F, CHR 0x8E, CHR 0xAF]"

definition emoji_news :: string where
  "emoji_news = [CHR 0xF0, CHR 0x9F, CHR 0x93, CHR 0xB0]"

text \<open>Lines 78--92: the success branch.\<close>

definition render_plan :: "string \<Rightarrow> plan \<Rightarrow> news_item list \<Rightarrow> st_elem list" where
  "render_plan t p news =
     [Subheader (''Hasil untuk '' @ t),
      Metric ''Harga Terakhir'' (fmt_thousands (close p)),
      Success (reco p),
      Caption (why p),
      Write (''### '' @ emoji_target @ '' Trade Plan''),
      Write (''**Entry:** '' @ fmt_thousands (entry p)),
      Write (''**Target 1:** '' @ fmt_thousands (tp1 p)),
      Write (''**Target 2:** '' @ fmt_thousands (tp2 p)),
      Write (''**Cutloss:** '' @ fmt_thousands (cutloss p)),
      Write (''Support/Resistance (60D): **'' @ fmt_thousands (support p) @ '' / '' @
             fmt_thousands (resistance p) @ ''**''),
      Write (''### '' @ emoji_news @ '' News Terkini'')] @
     map (\<lambda>it. Markdown (''- ['' @ title it @ ''](''  @ link it @ '')'')) news"

text \<open>
  Lines 73--95: one press of the button at time \<open>now\<close> with input \<open>kode\<close>.
  The provider and the feed are functions of time: \<open>hist now\<close> is what yfinance
  returns at that moment, and \<open>parse now\<close> what \<open>feedparser.parse\<close> returns, since
  \<open>get_news\<close> is not cached and fetches the feed again on every press (lines 65, 91).
\<close>

definition analyze ::
  "ta_lib \<Rightarrow> provider \<Rightarrow> (real \<Rightarrow> string \<Rightarrow> py_dict list) \<Rightarrow> real \<Rightarrow> string \<Rightarrow> cache_state \<Rightarrow>
   st_elem list \<times> cache_state" where
  "analyze lib hist parse now kode c =
     (let t = normalize_ticker kode in
      case cached_load lib hist now t c of
        (Inl e, c') \<Rightarrow> ([Error (exc_str e)], c')
      | (Inr df, c') \<Rightarrow>
          (case trade_plan df of
             Inl e \<Rightarrow> ([Error (exc_str e)], c')
           | Inr p \<Rightarrow> (render_plan t p (get_news (parse now) t 8), c')))"

text \<open>Lines 71--72: a script run renders the results only when the button was pressed.\<close>

definition page_run ::
  "ta_lib \<Rightarrow> provider \<Rightarrow> (real \<Rightarrow> string \<Rightarrow> py_dict list) \<Rightarrow> real \<Rightarrow> string \<Rightarrow> bool \<Rightarrow> cache_state \<Rightarrow>
   st_elem list \<times> cache_state" where
  "page_run lib hist parse now kode clicked c =
     (if clicked then analyze lib hist parse now kode c else ([], c))"

subsection \<open>Lemmas\<close>

lemma analyze_miss:
  assumes "entries c (normalize_ticker kode) = None"
  shows "analyze lib hist parse now kode c =
     (let t = normalize_ticker kode in
      case cache_miss lib hist now t c of
        (Inl e, c') \<Rightarrow> ([Error (exc_str e)], c')
      | (Inr df, c') \<Rightarrow>
          (case trade_plan df of
             Inl e \<Rightarrow> ([Error (exc_str e)], c')
           | Inr p \<Rightarrow> (render_plan t p (get_news (parse now) t 8), c')))"
  using assms by (simp add: analyze_def cached_load_def Let_def)

lemma analyze_cached:
  "cached_load lib hist now (normalize_ticker kode) c = (r, c') \<Longrightarrow>
   analyze lib hist parse now kode c =
     ((case r of
         Inl e \<Rightarrow> [Error (exc_str e)]
       | Inr df \<Rightarrow>
           (case trade_plan df of
              Inl e \<Rightarrow> [Error (exc_str e)]
            | Inr p \<Rightarrow> render_plan (normalize_ticker kode) p (get_news (parse now) (normalize_ticker kode) 8))),
      c')"
  by (simp add: analyze_def Let_def split: sum.splits)

lemma analyze_loaded:
  assumes "cached_load lib hist now (normalize_ticker kode) c = (Inr rows, c')" and "rows \<noteq> []"
  shows "analyze lib hist parse now kode c =
    (render_plan (normalize_ticker kode) (plan_rule (last rows) (window_low rows) (window_high rows))
       (get_news (parse now) (normalize_ticker kode) 8), c')"
  using assms by (simp add: analyze_def Let_def trade_plan_Inr)

lemma fmt_thousands_flat:
  "fmt_thousands 50 = ''50''" "fmt_thousands (101 / 2) = ''50''" "fmt_thousands (197 / 4) = ''49''"
  by (simp_all add: fmt_thousands_def round_half_even_def show_nat.simps group3.simps digit_char_def)

subsection \<open>Properties of the handler\<close>

text \<open>
  C31: when the provider has no data for the normalised ticker and the cache has no
  entry for it, the page shows exactly the no-data error with its hint, and the only
  change to the cache is the counted provider call.
\<close>

theorem analyze_no_data:
  assumes "entries c (normalize_ticker kode) = None" and "hist now (normalize_ticker kode) = None"
  shows "analyze lib hist parse now kode c = ([Error no_data_msg], c\<lparr>fetches := Suc (fetches c)\<rparr>)"
  using assms by (simp add: analyze_miss cache_miss_def load_data_def)

lemma analyze_no_data_witness:
  "entries empty_cache (normalize_ticker ''xxxx'') = None \<and>
   (\<lambda>_ _. None) 0 (normalize_ticker ''xxxx'') = (None :: bar list option) \<and>
   analyze ex_lib (\<lambda>_ _. None) (\<lambda>_. ex_feed) 0 ''xxxx'' empty_cache =
     ([Error no_data_msg], empty_cache\<lparr>fetches := Suc (fetches empty_cache)\<rparr>)"
proof -
  have e: "entries empty_cache (normalize_ticker ''xxxx'') = None" by (simp add: empty_cache_def)
  have h: "(\<lambda>_ _. None) 0 (normalize_ticker ''xxxx'') = (None :: bar list option)" by simp
  show ?thesis
    using analyze_no_data [where lib = ex_lib and parse = "\<lambda>_. ex_feed" and kode = "''xxxx''"
        and c = empty_cache and now = 0 and hist = "\<lambda>_ _. None", OF e h] e h
    by simp
qed

text \<open>
  C32: a ticker with fewer than 200 days of history is not reported as missing: the
  loader returns an empty table and the page shows pandas' \<open>IndexError\<close> message
  instead of the no-data hint.
\<close>

theorem analyze_short_history:
  assumes "ta_warmup lib df" and "entries c (normalize_ticker kode) = None"
    and "hist now (normalize_ticker kode) = Some df" and "df \<noteq> []" and "length df < 200"
  shows "fst (analyze lib hist parse now kode c) = [Error iloc_msg]"
proof -
  from assms(5) have "drop 199 df = []" by simp
  with load_data_warmup_rows [OF assms(1)] have "dropna (add_indicators lib df) = []" by simp
  with assms(2-4) show ?thesis
    by (simp add: analyze_miss cache_miss_def load_data_def trade_plan_def)
qed

lemma analyze_short_history_witness:
  "ta_warmup ex_lib (replicate 120 (ex_bar 1)) \<and>
   entries empty_cache (normalize_ticker ''goto'') = None \<and>
   (\<lambda>_ _. Some (replicate 120 (ex_bar 1))) 0 (normalize_ticker ''goto'') = Some (replicate 120 (ex_bar 1)) \<and>
   fst (analyze ex_lib (\<lambda>_ _. Some (replicate 120 (ex_bar 1))) (\<lambda>_. ex_feed) 0 ''goto'' empty_cache) =
     [Error iloc_msg]"
proof -
  have w: "ta_warmup ex_lib (replicate 120 (ex_bar 1))" by (rule ex_lib_warmup)
  have e: "entries empty_cache (normalize_ticker ''goto'') = None" by (simp add: empty_cache_def)
  have h: "(\<lambda>_ _. Some (replicate 120 (ex_bar 1))) 0 (normalize_ticker ''goto'') =
      Some (replicate 120 (ex_bar 1))" by simp
  show ?thesis
    using analyze_short_history [where lib = ex_lib and df = "replicate 120 (ex_bar 1)"
        and c = empty_cache and kode = "''goto''" and now = 0 and parse = "\<lambda>_. ex_feed"
        and hist = "\<lambda>_ _. Some (replicate 120 (ex_bar 1))", OF w e h] w e h
    by simp
qed

text \<open>
  C33: with a provider whose data does not change over time and a cache that satisfies
  its invariant, pressing the button for a ticker with a non-empty cleaned table shows
  the header, the plan that \<open>trade_plan\<close> computes from the last row and the 60-day
  window, and the first eight news items, whether the table came from the cache or
  from a fresh download.
\<close>

theorem analyze_success:
  assumes "cache_inv lib (\<lambda>_. h) now c" and "h (normalize_ticker kode) = Some df" and "df \<noteq> []"
    and "rows = dropna (add_indicators lib df)" and "rows \<noteq> []"
  shows "fst (analyze lib (\<lambda>_. h) parse now kode c) =
    render_plan (normalize_ticker kode) (plan_rule (last rows) (window_low rows) (window_high rows))
      (get_news (parse now) (normalize_ticker kode) 8)"
proof -
  obtain r c' where cl: "cached_load lib (\<lambda>_. h) now (normalize_ticker kode) c = (r, c')"
    by (cases "cached_load lib (\<lambda>_. h) now (normalize_ticker kode) c")
  from cached_load_cases [OF assms(1) cl] have "r = load_data lib h (normalize_ticker kode)"
    by auto
  with assms(2-4) have "r = Inr rows" by (simp add: load_data_def)
  with cl assms(5) show ?thesis by (simp add: analyze_loaded)
qed

lemma analyze_success_witness:
  "cache_inv ex_lib (\<lambda>_. \<lambda>_. Some (replicate 200 (ex_bar 1))) 0 empty_cache \<and>
   (\<lambda>_. Some (replicate 200 (ex_bar 1))) (normalize_ticker ''bbni'') = Some (replicate 200 (ex_bar 1)) \<and>
   replicate 200 (ex_bar 1) \<noteq> [] \<and>
   dropna (add_indicators ex_lib (replicate 200 (ex_bar 1))) \<noteq> [] \<and>
   fst (analyze ex_lib (\<lambda>_. \<lambda>_. Some (replicate 200 (ex_bar 1))) (\<lambda>_. ex_feed) 0 ''bbni'' empty_cache) =
    render_plan (normalize_ticker ''bbni'')
      (plan_rule (last (dropna (add_indicators ex_lib (replicate 200 (ex_bar 1)))))
         (window_low (dropna (add_indicators ex_lib (replicate 200 (ex_bar 1)))))
         (window_high (dropna (add_indicators ex_lib (replicate 200 (ex_bar 1))))))
      (get_news ((\<lambda>_. ex_feed) 0) (normalize_ticker ''bbni'') 8)"
proof -
  have i: "cache_inv ex_lib (\<lambda>_. \<lambda>_. Some (replicate 200 (ex_bar 1))) 0 empty_cache"
    by (rule cache_inv_empty)
  have h: "(\<lambda>_. Some (replicate 200 (ex_bar 1))) (normalize_ticker ''bbni'') =
      Some (replicate 200 (ex_bar 1))" by simp
  have d: "replicate 200 (ex_bar 1) \<noteq> []" by simp
  have "map bar.truncate (dropna (add_indicators ex_lib (replicate 200 (ex_bar 1)))) =
      drop 199 (replicate 200 (ex_bar 1))"
    by (rule load_data_warmup_rows [OF ex_lib_warmup])
  then have n: "dropna (add_indicators ex_lib (replicate 200 (ex_bar 1))) \<noteq> []" by auto
  show ?thesis
    using analyze_success [OF i h d refl n] i h d n by simp
qed

text \<open>
  A stock parked at 50 for the whole window gets a WAIT plan whose first target
  lies below its entry (50 against 50.5), yet the page prints both as \<open>50\<close>: the
  rounding of \<open>,.0f\<close> hides that the plan's first target is a loss.
\<close>

theorem analyze_flat_display:
  "\<exists>p. trade_plan ex_flat = Inr p \<and> tp1 p < entry p \<and>
     take 4 (drop 5 (render_plan t p news)) =
       [Write ''**Entry:** 50'', Write ''**Target 1:** 50'', Write ''**Target 2:** 50'',
        Write ''**Cutloss:** 49'']"
proof -
  have "trade_plan ex_flat = Inr (plan_rule (last ex_flat) (window_low ex_flat) (window_high ex_flat))"
    by (rule trade_plan_Inr) simp
  moreover have "window_low ex_flat = 50" "window_high ex_flat = 50"
    by (simp_all add: window_low_def window_high_def tail_n_def)
  ultimately show ?thesis
    by (simp add: render_plan_def plan_rule_def Let_def fmt_thousands_flat)
qed

end
