(* ===== verification/Spec2Isabelle.thy ===== *)
theory Spec2Isabelle
  imports TradePlan Ticker Cache News Format App
begin

text \<open>
  \<^bold>\<open>IDX Stock Advisor: a verification development of \<open>src/app.py\<close>.\<close>

  \<^bold>\<open>The program.\<close> A Streamlit page (one script, re-run on every interaction). When the
  \<open>Analyze\<close> button is pressed it normalises the typed ticker (\<open>normalize_ticker\<close>),
  loads two years of daily prices from yfinance and appends five pandas_ta indicator
  columns, dropping incomplete rows (\<open>load_data\<close>, memoised by
  \<open>st.cache_data(ttl=60)\<close>), derives a trade plan from the last row and the 60-day
  window (\<open>trade_plan\<close>), prints it with \<open>f"{x:,.0f}"\<close>, lists eight Google News
  headlines (\<open>get_news\<close>), and shows \<open>str(e)\<close> for any exception.

  \<^bold>\<open>Theories and what they model.\<close>
  \<^item> \<open>Prelude\<close>: exceptions as values (\<open>py_exc\<close>, \<open>'a py_result = py_exc + 'a\<close>) and the
    builtins the code calls: \<open>Series.tail\<close> (\<open>tail_n\<close>), \<open>Series.min/max\<close>
    (\<open>series_min\<close>, \<open>series_max\<close>, \<open>None\<close> for pandas' NaN on an empty series),
    slicing \<open>xs[:n]\<close> (\<open>py_slice_to\<close>), \<open>dict.get\<close> (\<open>py_get\<close>); collection \<open>py_simps\<close>.
  \<^item> \<open>Ticker\<close>: \<open>normalize_ticker\<close> (lines 8--14) over \<open>py_strip\<close> and \<open>py_upper\<close>
    (Python's whitespace set and ASCII case mapping).
  \<^item> \<open>Loader\<close>: \<open>load_data\<close> (lines 17--26). A price row is the record \<open>bar\<close>, the
    frame after the indicator columns a list of \<open>aug_bar\<close> (columns \<open>real option\<close>,
    \<open>None\<close> for NaN), the cleaned frame a list of \<open>row\<close>. pandas_ta is a parameter
    \<open>ta_lib\<close> (three column functions); \<open>add_indicators\<close> aligns them by index
    (\<open>col_at\<close>), \<open>dropna\<close> keeps the complete rows. yfinance is the parameter \<open>history\<close>,
    \<open>None\<close> or \<open>[]\<close> for \<open>df is None or df.empty\<close>.
  \<^item> \<open>TradePlan\<close>: \<open>trade_plan\<close> (lines 28--60): \<open>IndexError\<close> on an empty frame
    (\<open>df.iloc[-1]\<close>), else \<open>plan_rule\<close> with both branches of line 35; the result dict
    is the record \<open>plan\<close>.
  \<^item> \<open>Cache\<close>: the \<open>st.cache_data\<close> wrapper (line 16) as explicit state passing:
    \<open>cache_state\<close> maps a ticker to the stored table and its time, \<open>cached_load\<close> is a
    call at time \<open>now\<close> (hit iff \<open>now < ts + 60\<close>; a miss calls \<open>load_data\<close> and
    stores only a returned value, exceptions are not cached; an entry is stamped with
    the time of the call, where Streamlit stamps the time the call completes), \<open>cache_reach\<close> the
    inductive set of states reached by calls at non-decreasing times, \<open>serve_all\<close> a
    sequence of calls. The provider is a function of time (\<open>provider\<close>), so data
    changing upstream is modelled.
  \<^item> \<open>News\<close>: \<open>get_news\<close> (lines 62--66) with \<open>str.replace\<close> (\<open>py_replace\<close>), the URL
    f-string and \<open>feed.entries[:n]\<close>; feedparser is a parameter mapping the URL to the
    entries. The page passes the feed as fetched at the time of the press (\<open>parse now\<close>):
    \<open>get_news\<close> is not cached.
  \<^item> \<open>Format\<close>: the format spec \<open>,.0f\<close>: round half to even (\<open>round_half_even\<close>),
    decimal digits (\<open>show_nat\<close>), comma grouping (\<open>group3\<close>), sign (\<open>fmt_thousands\<close>).
  \<^item> \<open>App\<close>: the button branch (lines 71--95): \<open>analyze\<close> composes the components and
    returns the emitted Streamlit elements (\<open>st_elem\<close>, \<open>render_plan\<close>) with the new
    cache; \<open>page_run\<close> is one script run.

  \<^bold>\<open>What is proved.\<close>
  \<^item> Trade plan (C1--C10): both branches exactly, the error on an empty frame, support
    and resistance as the 60-day extremes, the cutloss below the entry, on well-formed
    prices a positive support below the close and the close and target 2 at most the
    resistance, the exact conditions under which the targets are out of order, that rows
    older than the window do not matter, and that the rule has no absolute price in it
    (scaling all prices by \<open>k > 0\<close> scales the plan, \<open>scale_row\<close>, \<open>scale_plan\<close>).
    The specification's two worked examples are evaluated as plain lemmas.
  \<^item> Ticker (C11--C13): idempotence, the result shape (upper case, stripped, a dot) and
    the suffix rule; examples as plain lemmas.
  \<^item> Loader (C14--C17): the no-data error, each output row is an input bar with its own
    indicator values, date order kept, and the 199-row warm-up (the witnesses use 201
    dated bars, \<open>ex_dated\<close>, which clean to two rows).
  \<^item> Cache (C18--C24): the invariant on all reachable states (rule induction), a call is
    served from data at most 60 seconds old, with an unchanging provider a call and a
    whole sequence of calls at non-decreasing times return exactly the uncached results
    (refinement of \<open>load_data\<close>), calls within the TTL after a download are hits,
    errors are not stored, and within one 60-second window of successful downloads the
    provider is called at most once per distinct ticker (\<open>fresh_since\<close>).
  \<^item> News (C25--C26): the item list and the query string's relation to the normaliser.
  \<^item> Formatting (C27--C30): reading the formatted digits back gives the rounded
    magnitude, the rounding bounds with ties to even, the grouping in threes, and that
    the display never inverts the order of two non-negative amounts.
  \<^item> Page (C31--C34): the two error pages, the success page whether the table came from
    the cache or a download, and the page of a second press within the TTL: no download,
    the plan of the first press's table, the headlines of the feed fetched again.
    A flat stock's plan, whose first target below the entry prints as the entry, is
    evaluated as a plain lemma.

  \<^bold>\<open>Bounds and fuel.\<close> No fuel is used: every loop of the model (\<open>str.replace\<close>'s scan,
  digit generation, grouping) is a \<open>fun\<close> or \<open>function\<close> with a measure, so every
  operation is total. The warm-up bound 199 is the EMA200 window: under \<open>ta_warmup\<close>
  (pandas_ta's contract: EMA\<open>n\<close> is NaN on the first \<open>n-1\<close> rows, RSI14 and ATR14 on the
  first 14) the first 199 rows are dropped. The TTL is the code's 60 seconds.

  \<^bold>\<open>Not modelled.\<close> yfinance and feedparser (I/O; parameters of the model), the
  internals of pandas_ta (only its NaN warm-up contract is assumed, where stated),
  floating-point rounding (floats are reals, so comparisons at a tie may differ from
  IEEE doubles), Unicode case mapping and whitespace beyond ASCII, exceptions raised by
  the libraries themselves other than the empty-frame \<open>IndexError\<close> (a download or
  feed failure, or a failure half-way through rendering), NaN in the provider's price
  columns (\<open>dropna\<close> is modelled on the indicator columns), and the page
  layout calls \<open>st.set_page_config\<close>, \<open>st.title\<close>, \<open>st.text_input\<close> (lines 68--71).
\<close>

text \<open>
  C34: a second press with the same input, less than 60 seconds after a first press
  that downloaded the data, makes no provider call and leaves the cache as the first
  press left it; its page shows the plan computed from the table downloaded at the
  first press, whatever the provider returns now, next to the headlines of the feed
  as fetched at the second press.
\<close>

theorem repeat_press_within_ttl:
  assumes "entries c (normalize_ticker kode) = None"
    and "hist now (normalize_ticker kode) = Some df" and "df \<noteq> []"
    and "now' < now + cache_ttl"
  shows "analyze lib hist parse now' kode (snd (analyze lib hist parse now kode c)) =
    ((case trade_plan (dropna (add_indicators lib df)) of
        Inl e \<Rightarrow> [Error (exc_str e)]
      | Inr p \<Rightarrow> render_plan (normalize_ticker kode) p (get_news (parse now') (normalize_ticker kode) 8)),
     snd (analyze lib hist parse now kode c))"
proof -
  let ?t = "normalize_ticker kode" and ?rows = "dropna (add_indicators lib df)"
  let ?c1 = "c\<lparr>entries := (entries c)(?t \<mapsto> (?rows, now)), fetches := Suc (fetches c)\<rparr>"
  have miss: "cached_load lib hist now ?t c = (Inr ?rows, ?c1)"
    using assms(1-3) by (simp add: cached_load_def cache_miss_def load_data_def)
  have c1: "snd (analyze lib hist parse now kode c) = ?c1"
    using analyze_cached [OF miss, of parse] by simp
  have hit: "cached_load lib hist now' ?t ?c1 = (Inr ?rows, ?c1)"
    using assms(4) by (intro cached_load_hit) simp_all
  show ?thesis
    unfolding c1 using analyze_cached [OF hit, of parse] by (simp split: sum.splits)
qed

lemma repeat_press_within_ttl_witness:
  "entries empty_cache (normalize_ticker ''bbni'') = None \<and>
   (\<lambda>n _. Some (if n = 0 then ex_dated else [ex_bar 1])) 0 (normalize_ticker ''bbni'') = Some ex_dated \<and>
   ex_dated \<noteq> [] \<and> (30::real) < 0 + cache_ttl \<and>
   analyze ex_lib (\<lambda>n _. Some (if n = 0 then ex_dated else [ex_bar 1])) (\<lambda>_. ex_feed) 30 ''bbni''
     (snd (analyze ex_lib (\<lambda>n _. Some (if n = 0 then ex_dated else [ex_bar 1])) (\<lambda>_. ex_feed) 0 ''bbni''
        empty_cache)) =
    ((case trade_plan (dropna (add_indicators ex_lib ex_dated)) of
        Inl e \<Rightarrow> [Error (exc_str e)]
      | Inr p \<Rightarrow> render_plan (normalize_ticker ''bbni'') p (get_news ((\<lambda>_. ex_feed) 30) (normalize_ticker ''bbni'') 8)),
     snd (analyze ex_lib (\<lambda>n _. Some (if n = 0 then ex_dated else [ex_bar 1])) (\<lambda>_. ex_feed) 0 ''bbni''
        empty_cache))"
proof -
  have e: "entries empty_cache (normalize_ticker ''bbni'') = None" by (simp add: empty_cache_def)
  have h: "(\<lambda>n _. Some (if n = 0 then ex_dated else [ex_bar 1])) 0 (normalize_ticker ''bbni'') = Some ex_dated"
    by simp
  have d: "ex_dated \<noteq> []" using ex_dated_tail by auto
  have n: "(30::real) < 0 + cache_ttl" by (simp add: cache_ttl_def)
  note r = repeat_press_within_ttl [where lib = ex_lib and parse = "\<lambda>_. ex_feed" and kode = "''bbni''"
      and c = empty_cache and now = 0 and now' = 30
      and hist = "\<lambda>n _. Some (if n = 0 then ex_dated else [ex_bar 1])", OF e h d n]
  from e h d n r show ?thesis by (intro conjI)
qed

end
